theory Spec2Isabelle
  imports Complex_Main "HOL-Library.Sublist"
begin

section \<open>Python values used by the notebook\<close>

text \<open>
  The repository is one Jupyter notebook, \<^verbatim>\<open>rl_deepracer_coach_robomaker.ipynb\<close>. Its code
  cells are modelled one by one, in the order in which they stand in the file; a run of
  the notebook executes them from top to bottom and stops at the first cell that raises.
  Everything the notebook obtains from outside (the clock, the SDK calls) is a field of
  the record \<open>world\<close>; everything it does to the outside is an \<open>event\<close> appended to the
  trace of the notebook state.
\<close>

subsection \<open>Strings\<close>

text \<open>Python's \<^verbatim>\<open>needle in hay\<close> on strings: \<open>needle\<close> occurs as a contiguous substring.\<close>

fun str_in :: "string \<Rightarrow> string \<Rightarrow> bool" where
  "str_in n [] = (n = [])"
| "str_in n (c # cs) = (prefix n (c # cs) \<or> str_in n cs)"

definition digit_char :: "nat \<Rightarrow> char" where
  "digit_char d = ''0123456789'' ! d"

fun str_nat :: "nat \<Rightarrow> string" where
  "str_nat n = (if n < 10 then [digit_char n] else str_nat (n div 10) @ [digit_char (n mod 10)])"

text \<open>Python's \<^verbatim>\<open>str(i)\<close> on an integer.\<close>

definition str_int :: "int \<Rightarrow> string" where
  "str_int i = (if i < 0 then CHR ''-'' # str_nat (nat (- i)) else str_nat (nat i))"

subsection \<open>Time\<close>

text \<open>
  \<^verbatim>\<open>time.gmtime()\<close> returns a \<^verbatim>\<open>struct_time\<close>: the current UTC time broken down to whole
  seconds. Two clock reads within the same second return equal values.
\<close>

record struct_time =
  tm_year :: int
  tm_mon :: int
  tm_mday :: int
  tm_hour :: int
  tm_min :: int
  tm_sec :: int
  tm_wday :: int
  tm_yday :: int
  tm_isdst :: int

text \<open>A decimal number padded with a zero to two digits, as \<^verbatim>\<open>%m\<close>, \<^verbatim>\<open>%d\<close>, ... print it.\<close>

definition pad2 :: "int \<Rightarrow> string" where
  "pad2 i = (let s = str_int i in if length s < 2 then CHR ''0'' # s else s)"

text \<open>The conversions of \<^verbatim>\<open>time.strftime\<close> that the notebook's two format strings use.\<close>

definition directive :: "char \<Rightarrow> struct_time \<Rightarrow> string" where
  "directive d tm =
     (if d = CHR ''y'' then pad2 (tm_year tm mod 100)
      else if d = CHR ''Y'' then str_int (tm_year tm)
      else if d = CHR ''m'' then pad2 (tm_mon tm)
      else if d = CHR ''d'' then pad2 (tm_mday tm)
      else if d = CHR ''H'' then pad2 (tm_hour tm)
      else if d = CHR ''M'' then pad2 (tm_min tm)
      else if d = CHR ''S'' then pad2 (tm_sec tm)
      else if d = CHR ''%'' then ''%''
      else [CHR ''%'', d])"

fun strftime :: "string \<Rightarrow> struct_time \<Rightarrow> string" where
  "strftime [] tm = []"
| "strftime [c] tm = [c]"
| "strftime (c # d # fmt) tm =
     (if c = CHR ''%'' then directive d tm @ strftime fmt tm
      else c # strftime (d # fmt) tm)"

subsection \<open>Exceptions\<close>

text \<open>
  An exception object (an instance of a subclass of \<^verbatim>\<open>Exception\<close>): its class and the
  text \<^verbatim>\<open>str(e)\<close>.
\<close>

datatype exn = Exn (exn_class: string) (exn_str: string)

text \<open>How the execution of a cell ends. \<open>Blocked\<close>: the cell never returns.\<close>

datatype outcome = Finished | Raised exn | Blocked

section \<open>What the notebook exchanges with the outside\<close>

subsection \<open>Responses of the EC2 describe calls\<close>

text \<open>The fields of the response entries that the notebook reads.\<close>

record vpc =
  vpc_VpcId :: string
  vpc_IsDefault :: bool

record security_group =
  sg_GroupId :: string
  sg_GroupName :: string
  sg_VpcId :: string

record subnet =
  sn_SubnetId :: string
  sn_VpcId :: string
  sn_DefaultForAz :: bool

record route_table =
  rt_RouteTableId :: string
  rt_VpcId :: string

subsection \<open>Requests\<close>

record endpoint_req =
  ep_DryRun :: bool
  ep_VpcEndpointType :: string
  ep_VpcId :: string
  ep_ServiceName :: string
  ep_RouteTableIds :: "string list"

text \<open>
  The arguments of \<^verbatim>\<open>RLEstimator(...)\<close> together with those of \<^verbatim>\<open>estimator.fit(...)\<close>.
  A Python dict of strings is an association list in insertion order.
\<close>

record fit_req =
  fit_entry_point :: string
  fit_source_dir :: string
  fit_dependencies :: "string list"
  fit_toolkit :: string
  fit_toolkit_version :: string
  fit_framework :: string
  fit_role :: string
  fit_train_instance_type :: string
  fit_train_instance_count :: int
  fit_output_path :: string
  fit_base_job_name :: string
  fit_train_max_run :: int
  fit_hyperparameters :: "(string \<times> string) list"
  fit_metric_definitions :: "(string \<times> string) list"
  fit_subnets :: "string list"
  fit_security_group_ids :: "string list"
  fit_job_name :: string
  fit_wait :: bool

record bundle_source =
  src_s3Bucket :: string
  src_s3Key :: string
  src_architecture :: string

record app_req =
  app_name :: string
  app_sources :: "bundle_source list"
  app_simulationSoftwareSuite :: "string \<times> string"
  app_robotSoftwareSuite :: "string \<times> string"
  app_renderingEngine :: "string \<times> string"

record launch_config =
  lc_packageName :: string
  lc_launchFile :: string
  lc_environmentVariables :: "(string \<times> string) list"

record simulation_application =
  sa_application :: string
  sa_launchConfig :: launch_config

record vpc_config =
  vc_subnets :: "string list"
  vc_securityGroups :: "string list"
  vc_assignPublicIp :: bool

record output_location =
  out_s3Bucket :: string
  out_s3Prefix :: string

record sim_job_req =
  sj_iamRole :: string
  sj_clientRequestToken :: string
  sj_maxJobDurationInSeconds :: int
  sj_failureBehavior :: string
  sj_simulationApplications :: "simulation_application list"
  sj_vpcConfig :: vpc_config
  sj_outputLocation :: output_location

subsection \<open>The metrics table\<close>

text \<open>
  A pandas \<^verbatim>\<open>DataFrame\<close> as \<^verbatim>\<open>read_csv\<close> returns it: the column names of the header and
  the rows in file order. A cell is \<open>None\<close> when the value is missing (NaN).
\<close>

record dataframe =
  df_columns :: "string list"
  df_rows :: "real option list list"

record plot_req =
  plot_x :: string
  plot_y :: string
  plot_points :: "(real option \<times> real option) list"
  plot_figsize :: "int \<times> int"
  plot_legend :: bool
  plot_style :: string

subsection \<open>Events\<close>

text \<open>An argument of \<^verbatim>\<open>print\<close>: a string or a list of strings.\<close>

datatype pval = PStr string | PList "string list"

text \<open>
  The texts of the module \<^verbatim>\<open>markdown_helper\<close>, which is not part of the source: each is
  kept as the name of the generating function with its arguments.
\<close>

datatype markdown =
    Help_for_robomaker_trust_relationship string
  | Help_for_s3_endpoint_permissions string
  | Create_s3_endpoint_manually string string
  | Help_for_robomaker_all_permissions string
  | Robomaker_links "string list" string

datatype event =
    Gmtime struct_time
  | Print "pval list"
  | Display markdown
  | Shell string "string list"
  | Os_system string
  | Sagemaker_Session
  | Default_bucket
  | Sagemaker_get_execution_role
  | Misc_get_execution_role string
  | Boto3_client string
  | Describe_vpcs
  | Describe_security_groups
  | Describe_subnets
  | Describe_route_tables
  | Create_vpc_endpoint endpoint_req
  | Estimator_fit fit_req
  | Create_simulation_application app_req
  | Create_simulation_job sim_job_req
  | Wait_for_s3_object string string string
  | Read_csv string
  | Df_plot plot_req
  | Set_ylabel string
  | Set_xlabel string
  | Cancel_simulation_job string
  | Stop_training_job string
  | Delete_simulation_application string

text \<open>
  The events that send a request over the network. Constructing a session or a client
  object sends none; \<^verbatim>\<open>sage_session.default_bucket()\<close> looks the account's default bucket
  up at the storage service (cell "Setup S3 bucket": "Set up the linkage and
  authentication to the S3 bucket").
\<close>

fun network_call :: "event \<Rightarrow> bool" where
  "network_call (Gmtime _) = False"
| "network_call (Print _) = False"
| "network_call (Display _) = False"
| "network_call (Shell prog _) = (prog = ''aws'' \<or> prog = ''wget'')"
| "network_call (Os_system _) = False"
| "network_call Sagemaker_Session = False"
| "network_call (Boto3_client _) = False"
| "network_call (Read_csv _) = False"
| "network_call (Df_plot _) = False"
| "network_call (Set_ylabel _) = False"
| "network_call (Set_xlabel _) = False"
| "network_call _ = True"

subsection \<open>The world\<close>

text \<open>The result of \<^verbatim>\<open>misc.wait_for_s3_object\<close>, a helper outside the source.\<close>

datatype wait_result = Object_fetched | Wait_raised exn | Never_returns

text \<open>
  What the outside answers; every request to a service either returns its result or
  raises. Constructing the session and the client objects is taken to succeed.
  \<open>gmtime_at w k\<close> is the value of the \<open>k\<close>-th call of
  \<^verbatim>\<open>gmtime()\<close> (counted from 0); \<open>robomaker_create_simulation_job w k req\<close> is the answer to
  the \<open>k\<close>-th call of \<^verbatim>\<open>create_simulation_job\<close>, its ARN or the exception raised.
\<close>

record world =
  gmtime_at :: "nat \<Rightarrow> struct_time"
  sage_boto_region_name :: string
  sage_default_bucket :: "exn + string"
  sagemaker_get_execution_role :: "exn + string"
  misc_get_execution_role :: "string \<Rightarrow> exn + string"
  ec2_describe_vpcs :: "exn + vpc list"
  ec2_describe_security_groups :: "exn + security_group list"
  ec2_describe_subnets :: "exn + subnet list"
  ec2_describe_route_tables :: "exn + route_table list"
  ec2_create_vpc_endpoint :: "endpoint_req \<Rightarrow> exn + unit"
  estimator_fit :: "fit_req \<Rightarrow> exn + unit"
  robomaker_create_simulation_application :: "app_req \<Rightarrow> exn + string"
  robomaker_create_simulation_job :: "nat \<Rightarrow> sim_job_req \<Rightarrow> exn + string"
  misc_wait_for_s3_object :: "string \<Rightarrow> string \<Rightarrow> string \<Rightarrow> wait_result"
  pd_read_csv :: "string \<Rightarrow> exn + dataframe"
  df_plot_call :: "plot_req \<Rightarrow> exn + unit"
  robomaker_cancel_simulation_job :: "string \<Rightarrow> exn + unit"
  sagemaker_stop_training_job :: "string \<Rightarrow> exn + unit"
  robomaker_delete_simulation_application :: "string \<Rightarrow> exn + unit"

subsection \<open>The notebook state\<close>

text \<open>
  The trace of events so far, the number of clock reads and of simulation-job requests
  so far, and the global variables that a later cell reads.
\<close>

record notebook =
  trace :: "event list"
  clock_reads :: nat
  sim_job_calls :: nat
  s3_bucket :: string
  s3_output_path :: string
  job_name_prefix :: string
  job_name :: string
  s3_prefix :: string
  s3_prefix_robomaker :: string
  job_duration_in_seconds :: int
  aws_region :: string
  role :: string
  default_vpc :: string
  default_security_groups :: "string list"
  default_subnets :: "string list"
  RLCOACH_PRESET :: string
  estimator_current_job_name :: string
  simulation_app_arn :: string
  num_simulation_workers :: int
  job_arns :: "string list"
  tmp_dir :: string
  intermediate_folder_key :: string

type_synonym cell = "notebook \<Rightarrow> notebook \<times> outcome"

definition emit :: "event \<Rightarrow> notebook \<Rightarrow> notebook" where
  "emit ev g = g\<lparr>trace := trace g @ [ev]\<rparr>"

text \<open>\<^verbatim>\<open>gmtime()\<close>: one clock read.\<close>

definition gmtime :: "world \<Rightarrow> notebook \<Rightarrow> struct_time \<times> notebook" where
  "gmtime w g =
     (let tm = gmtime_at w (clock_reads g)
      in (tm, (emit (Gmtime tm) g)\<lparr>clock_reads := Suc (clock_reads g)\<rparr>))"

definition emits :: "event list \<Rightarrow> notebook \<Rightarrow> notebook" where
  "emits evs g = g\<lparr>trace := trace g @ evs\<rparr>"

section \<open>The cells\<close>

subsection \<open>Setup S3 bucket\<close>

definition cell_setup_s3_bucket :: "world \<Rightarrow> cell" where
  "cell_setup_s3_bucket w g =
     (let g1 = emit Default_bucket (emit Sagemaker_Session g)
      in case sage_default_bucket w of
           Inl e \<Rightarrow> (g1, Raised e)
         | Inr b \<Rightarrow> (g1\<lparr>s3_bucket := b, s3_output_path := ''s3://'' @ b @ ''/''\<rparr>, Finished))"

subsection \<open>Define Variables\<close>

definition supported_regions :: "string list" where
  "supported_regions = [''us-west-2'', ''us-east-1'', ''eu-west-1'']"

definition region_error :: exn where
  "region_error = Exn ''Exception''
     (''This notebook uses RoboMaker which is available only in US East (N. Virginia), '' @
      ''US West (Oregon) and EU (Ireland). Please switch to one of these regions.'')"

definition cell_define_variables :: "world \<Rightarrow> cell" where
  "cell_define_variables w g =
     (let prefix = ''rl-deepracer'';
          (tm, g1) = gmtime w g;
          name = prefix @ ''-sagemaker-'' @ strftime ''%y%m%d-%H%M%S'' tm;
          g2 = g1\<lparr>job_name_prefix := prefix,
                  job_name := name,
                  s3_prefix := name,
                  s3_prefix_robomaker := prefix @ ''-robomaker-'' @ strftime ''%y%m%d-%H%M%S'' tm,
                  job_duration_in_seconds := 3600 * 5,
                  aws_region := sage_boto_region_name w\<rparr>
      in if aws_region g2 \<notin> set supported_regions then (g2, Raised region_error)
         else (emit (Print [PStr (''Model checkpoints and other metadata will be stored at: '' @
                                   s3_output_path g2 @ job_name g2)]) g2, Finished))"

subsection \<open>Create an IAM role\<close>

text \<open>The bare \<^verbatim>\<open>except:\<close> catches whatever the first call raises.\<close>

definition cell_create_iam_role :: "world \<Rightarrow> cell" where
  "cell_create_iam_role w g =
     (let g1 = emit Sagemaker_get_execution_role g;
          announce = (\<lambda>r h. (emit (Print [PStr (''Using IAM role arn: '' @ r)]) (h\<lparr>role := r\<rparr>), Finished))
      in case sagemaker_get_execution_role w of
           Inr r \<Rightarrow> announce r g1
         | Inl _ \<Rightarrow>
             (let g2 = emit (Misc_get_execution_role ''sagemaker'') g1
              in case misc_get_execution_role w ''sagemaker'' of
                   Inl e \<Rightarrow> (g2, Raised e)
                 | Inr r \<Rightarrow> announce r g2))"

definition cell_permission_setup :: "world \<Rightarrow> cell" where
  "cell_permission_setup w g =
     (emit (Display (Help_for_robomaker_trust_relationship (role g))) g, Finished)"

subsection \<open>Configure VPC\<close>

text \<open>
  None of the three describe calls stands in a \<^verbatim>\<open>try\<close>. Taking element 0 of an empty list
  raises \<^verbatim>\<open>IndexError\<close>.
\<close>

definition cell_configure_vpc :: "world \<Rightarrow> cell" where
  "cell_configure_vpc w g =
     (let g1 = emit Describe_vpcs (emit (Boto3_client ''ec2'') g)
      in case ec2_describe_vpcs w of
           Inl e \<Rightarrow> (g1, Raised e)
         | Inr vpcs \<Rightarrow>
            (case [vpc_VpcId v. v \<leftarrow> vpcs, vpc_IsDefault v = True] of
               [] \<Rightarrow> (g1, Raised (Exn ''IndexError'' ''list index out of range''))
             | dv # _ \<Rightarrow>
                (let g2 = emit Describe_security_groups (g1\<lparr>default_vpc := dv\<rparr>)
                 in case ec2_describe_security_groups w of
                      Inl e \<Rightarrow> (g2, Raised e)
                    | Inr groups \<Rightarrow>
                       (let g3 = emit Describe_subnets
                              (g2\<lparr>default_security_groups :=
                                    [sg_GroupId s. s \<leftarrow> groups,
                                       sg_GroupName s = ''default'' \<and> sg_VpcId s = dv]\<rparr>)
                        in case ec2_describe_subnets w of
                             Inl e \<Rightarrow> (g3, Raised e)
                           | Inr subnets \<Rightarrow>
                              (let g4 = g3\<lparr>default_subnets :=
                                     [sn_SubnetId s. s \<leftarrow> subnets,
                                        sn_VpcId s = dv \<and> sn_DefaultForAz s = True]\<rparr>
                               in (emits
                                     [Print [PStr ''Using default VPC:'', PStr (default_vpc g4)],
                                      Print [PStr ''Using default security group:'',
                                             PList (default_security_groups g4)],
                                      Print [PStr ''Using default subnets:'',
                                             PList (default_subnets g4)]] g4,
                                   Finished))))))"

definition no_route_tables_error :: exn where
  "no_route_tables_error = Exn ''AssertionError''
     (''No route tables were found. Please follow the VPC S3 endpoint creation '' @
      ''guide by clicking the above link.'')"

text \<open>The route tables of the default VPC, and the endpoint request for them.\<close>

definition vpc_route_tables :: "notebook \<Rightarrow> route_table list \<Rightarrow> string list" where
  "vpc_route_tables g tables = [rt_RouteTableId t. t \<leftarrow> tables, rt_VpcId t = default_vpc g]"

definition endpoint_request :: "notebook \<Rightarrow> string list \<Rightarrow> endpoint_req" where
  "endpoint_request g route_tables =
     \<lparr>ep_DryRun = False,
      ep_VpcEndpointType = ''Gateway'',
      ep_VpcId = default_vpc g,
      ep_ServiceName = ''com.amazonaws.'' @ aws_region g @ ''.s3'',
      ep_RouteTableIds = route_tables\<rparr>"

definition cell_s3_endpoint :: "world \<Rightarrow> cell" where
  "cell_s3_endpoint w g =
     (let g1 = emit Describe_route_tables g
      in case ec2_describe_route_tables w of
           Inl e \<Rightarrow>
             (if str_in ''UnauthorizedOperation'' (exn_str e)
              then (emit (Display (Help_for_s3_endpoint_permissions (role g))) g1, Raised e)
              else (emit (Display (Create_s3_endpoint_manually (aws_region g) (default_vpc g))) g1,
                    Raised e))
         | Inr tables \<Rightarrow>
            (let route_tables = vpc_route_tables g tables;
                 g2 = emit (Print [PStr ''Trying to attach S3 endpoints to the following route tables:'',
                                   PList route_tables]) g1
             in if \<not> length route_tables \<ge> 1 then (g2, Raised no_route_tables_error)
                else
                 (let req = endpoint_request g route_tables;
                      g3 = emit (Create_vpc_endpoint req) g2
                  in case ec2_create_vpc_endpoint w req of
                       Inr _ \<Rightarrow> (emit (Print [PStr ''S3 endpoint created successfully!'']) g3, Finished)
                     | Inl e \<Rightarrow>
                        (if str_in ''RouteAlreadyExists'' (exn_str e)
                         then (emit (Print [PStr ''S3 endpoint already exists.'']) g3, Finished)
                         else if str_in ''UnauthorizedOperation'' (exn_str e)
                         then (emit (Display (Help_for_s3_endpoint_permissions (role g))) g3, Raised e)
                         else (emit (Display (Create_s3_endpoint_manually (aws_region g) (default_vpc g))) g3,
                               Raised e)))))"

subsection \<open>Setup the environment and train\<close>

text \<open>A line that starts with \<^verbatim>\<open>!\<close> runs a shell command; its failure raises nothing.\<close>

definition cell_show_preset :: "world \<Rightarrow> cell" where
  "cell_show_preset w g = (emit (Shell ''pygmentize'' [''src/robomaker/presets/deepracer.py'']) g, Finished)"

definition cell_upload_environment :: "world \<Rightarrow> cell" where
  "cell_upload_environment w g =
     (let s3_location = ''s3://'' @ s3_bucket g @ ''/'' @ s3_prefix g
      in (emits
            [Shell ''aws'' [''s3'', ''rm'', ''--recursive'', s3_location],
             Shell ''aws'' [''s3'', ''cp'', ''src/robomaker/environments/'',
                            s3_location @ ''/environments/'', ''--recursive'',
                            ''--exclude'', ''.ipynb_checkpoints*'', ''--exclude'', ''*.pyc''],
             Shell ''aws'' [''s3'', ''cp'', ''src/robomaker/presets/'',
                            s3_location @ ''/presets/'', ''--recursive'',
                            ''--exclude'', ''.ipynb_checkpoints*'', ''--exclude'', ''*.pyc'']] g,
          Finished))"

definition metric_definitions :: "(string \<times> string) list" where
  "metric_definitions =
     [(''reward-training'', ''^Training>.*Total reward=(.*?),''),
      (''ppo-surrogate-loss'', ''^Policy training>.*Surrogate loss=(.*?),''),
      (''ppo-entropy'', ''^Policy training>.*Entropy=(.*?),''),
      (''reward-testing'', ''^Testing>.*Total reward=(.*?),'')]"

text \<open>
  \<^verbatim>\<open>estimator.fit(job_name=job_name, wait=False)\<close> submits the training job under the given
  name, which the estimator keeps as \<^verbatim>\<open>_current_job_name\<close>.
\<close>

definition cell_train :: "world \<Rightarrow> cell" where
  "cell_train w g =
     (let preset = ''deepracer'';
          instance_type = ''ml.c4.2xlarge'';
          g1 = g\<lparr>RLCOACH_PRESET := preset\<rparr>;
          req = \<lparr>fit_entry_point = ''training_worker.py'',
                 fit_source_dir = ''src'',
                 fit_dependencies = [''common/sagemaker_rl''],
                 fit_toolkit = ''coach'',
                 fit_toolkit_version = ''0.10.1'',
                 fit_framework = ''tensorflow'',
                 fit_role = role g1,
                 fit_train_instance_type = instance_type,
                 fit_train_instance_count = 1,
                 fit_output_path = s3_output_path g1,
                 fit_base_job_name = job_name_prefix g1,
                 fit_train_max_run = job_duration_in_seconds g1,
                 fit_hyperparameters =
                   [(''s3_bucket'', s3_bucket g1),
                    (''s3_prefix'', s3_prefix g1),
                    (''aws_region'', aws_region g1),
                    (''RLCOACH_PRESET'', preset)],
                 fit_metric_definitions = metric_definitions,
                 fit_subnets = default_subnets g1,
                 fit_security_group_ids = default_security_groups g1,
                 fit_job_name = job_name g1,
                 fit_wait = False\<rparr>;
          g2 = (emit (Estimator_fit req) g1)\<lparr>estimator_current_job_name := job_name g1\<rparr>
      in case estimator_fit w req of
           Inl e \<Rightarrow> (g2, Raised e)
         | Inr _ \<Rightarrow> (g2, Finished))"

subsection \<open>Start the Robomaker job\<close>

definition cell_robomaker_client :: "world \<Rightarrow> cell" where
  "cell_robomaker_client w g = (emit (Boto3_client ''robomaker'') g, Finished)"

definition bundle_s3_key :: string where
  "bundle_s3_key = ''deepracer/simulation_ws.tar.gz''"

definition simulation_application_bundle_location :: string where
  "simulation_application_bundle_location =
     ''https://s3-us-west-2.amazonaws.com/robomaker-applications-us-west-2-11d8d0439f6a/'' @
     ''deep-racer/deep-racer-1.0.80.0.1.0.106.0/simulation_ws.tar.gz''"

definition cell_download_bundle :: "world \<Rightarrow> cell" where
  "cell_download_bundle w g =
     (emits
        [Shell ''wget'' [simulation_application_bundle_location],
         Shell ''aws'' [''s3'', ''cp'', ''simulation_ws.tar.gz'',
                        ''s3://'' @ s3_bucket g @ ''/'' @ bundle_s3_key],
         Shell ''rm'' [''simulation_ws.tar.gz'']] g,
      Finished)"

text \<open>Both branches of the handler raise the exception again.\<close>

definition cell_create_simulation_application :: "world \<Rightarrow> cell" where
  "cell_create_simulation_application w g =
     (let (tm, g1) = gmtime w g;
          req = \<lparr>app_name = ''deepracer-sample-application'' @ strftime ''%y%m%d-%H%M%S'' tm,
                 app_sources = [\<lparr>src_s3Bucket = s3_bucket g1,
                                  src_s3Key = bundle_s3_key,
                                  src_architecture = ''X86_64''\<rparr>],
                 app_simulationSoftwareSuite = (''Gazebo'', ''7''),
                 app_robotSoftwareSuite = (''ROS'', ''Kinetic''),
                 app_renderingEngine = (''OGRE'', ''1.x'')\<rparr>;
          g2 = emit (Create_simulation_application req) g1
      in case robomaker_create_simulation_application w req of
           Inr arn \<Rightarrow>
             (emit (Print [PStr ''Created a new simulation app with ARN:'', PStr arn])
                (g2\<lparr>simulation_app_arn := arn\<rparr>), Finished)
         | Inl e \<Rightarrow>
             (if str_in ''AccessDeniedException'' (exn_str e)
              then (emit (Display (Help_for_robomaker_all_permissions (role g))) g2, Raised e)
              else (g2, Raised e)))"

subsection \<open>Launch the Simulation job on RoboMaker\<close>

text \<open>
  One simulation-job request: the arguments of \<^verbatim>\<open>create_simulation_job\<close> as both the
  training launch and the evaluation cell write them, for the given launch file,
  environment variables and request token.
\<close>

definition simulation_job_request ::
    "notebook \<Rightarrow> string \<Rightarrow> (string \<times> string) list \<Rightarrow> string \<Rightarrow> sim_job_req" where
  "simulation_job_request g launch_file envriron_vars token =
     \<lparr>sj_iamRole = role g,
      sj_clientRequestToken = token,
      sj_maxJobDurationInSeconds = job_duration_in_seconds g,
      sj_failureBehavior = ''Continue'',
      sj_simulationApplications =
        [\<lparr>sa_application = simulation_app_arn g,
          sa_launchConfig = \<lparr>lc_packageName = ''deepracer_simulation'',
                             lc_launchFile = launch_file,
                             lc_environmentVariables = envriron_vars\<rparr>\<rparr>],
      sj_vpcConfig = \<lparr>vc_subnets = default_subnets g,
                      vc_securityGroups = default_security_groups g,
                      vc_assignPublicIp = True\<rparr>,
      sj_outputLocation = \<lparr>out_s3Bucket = s3_bucket g, out_s3Prefix = s3_prefix_robomaker g\<rparr>\<rparr>"

text \<open>The request token \<^verbatim>\<open>strftime("%Y-%m-%d-%H-%M-%S", tm)\<close> of a clock value \<open>tm\<close>.\<close>

definition request_token :: "struct_time \<Rightarrow> string" where
  "request_token tm = strftime ''%Y-%m-%d-%H-%M-%S'' tm"

text \<open>
  One \<^verbatim>\<open>create_simulation_job\<close> call: the token is formatted from a fresh clock read, the
  request is sent, and the result is the ARN of the response or the exception.
\<close>

definition create_simulation_job ::
    "world \<Rightarrow> (string \<Rightarrow> sim_job_req) \<Rightarrow> notebook \<Rightarrow> notebook \<times> (exn + string)" where
  "create_simulation_job w mk g =
     (let (tm, g1) = gmtime w g;
          req = mk (request_token tm);
          g2 = (emit (Create_simulation_job req) g1)\<lparr>sim_job_calls := Suc (sim_job_calls g1)\<rparr>
      in (g2, robomaker_create_simulation_job w (sim_job_calls g1) req))"

text \<open>
  The loop \<^verbatim>\<open>for job_no in range(num_simulation_workers)\<close>, with the number of iterations
  left and the list \<^verbatim>\<open>responses\<close> (of each response, its \<^verbatim>\<open>"arn"\<close>).
\<close>

fun create_simulation_jobs ::
    "world \<Rightarrow> (string \<Rightarrow> sim_job_req) \<Rightarrow> nat \<Rightarrow> string list \<Rightarrow> notebook
       \<Rightarrow> notebook \<times> (exn + string list)" where
  "create_simulation_jobs w mk 0 responses g = (g, Inr responses)"
| "create_simulation_jobs w mk (Suc n) responses g =
     (case create_simulation_job w mk g of
        (g1, Inl e) \<Rightarrow> (g1, Inl e)
      | (g1, Inr arn) \<Rightarrow> create_simulation_jobs w mk n (responses @ [arn]) g1)"

text \<open>The dict \<^verbatim>\<open>envriron_vars\<close> of the training launch.\<close>

definition training_envriron_vars :: "notebook \<Rightarrow> (string \<times> string) list" where
  "training_envriron_vars g =
     [(''MODEL_S3_BUCKET'', s3_bucket g),
      (''MODEL_S3_PREFIX'', s3_prefix g),
      (''ROS_AWS_REGION'', aws_region g),
      (''WORLD_NAME'', ''hard_track''),
      (''MARKOV_PRESET_FILE'', RLCOACH_PRESET g @ ''.py''),
      (''NUMBER_OF_ROLLOUT_WORKERS'', str_int (num_simulation_workers g))]"

text \<open>The cell for a worker count \<open>n\<close>; \<^verbatim>\<open>range(n)\<close> is empty for \<open>n \<le> 0\<close>.\<close>

definition launch_simulation_jobs :: "int \<Rightarrow> world \<Rightarrow> cell" where
  "launch_simulation_jobs n w g =
     (let g1 = g\<lparr>num_simulation_workers := n\<rparr>
      in case create_simulation_jobs w
                (simulation_job_request g1 ''distributed_training.launch'' (training_envriron_vars g1))
                (nat (num_simulation_workers g1)) [] g1 of
           (g2, Inl e) \<Rightarrow> (g2, Raised e)
         | (g2, Inr responses) \<Rightarrow>
             (let g3 = emit (Print [PStr ''Created the following jobs:'']) g2;
                  g4 = g3\<lparr>job_arns := responses\<rparr>
              in (emits (map (\<lambda>job_arn. Print [PStr ''Job ARN'', PStr job_arn]) (job_arns g4)) g4,
                  Finished)))"

text \<open>The notebook sets \<^verbatim>\<open>num_simulation_workers = 1\<close>.\<close>

definition cell_launch_simulation_jobs :: "world \<Rightarrow> cell" where
  "cell_launch_simulation_jobs = launch_simulation_jobs 1"

definition cell_robomaker_links :: "world \<Rightarrow> cell" where
  "cell_robomaker_links w g = (emit (Display (Robomaker_links (job_arns g) (aws_region g))) g, Finished)"

subsection \<open>Plot metrics for training job\<close>

definition cell_tmp_dir :: "world \<Rightarrow> cell" where
  "cell_tmp_dir w g =
     (let g1 = g\<lparr>tmp_dir := ''/tmp/'' @ job_name g\<rparr>;
          g2 = emits [Os_system (''mkdir '' @ tmp_dir g1),
                      Print [PStr (''Create local folder '' @ tmp_dir g1)]] g1
      in (g2\<lparr>intermediate_folder_key := job_name g2 @ ''/output/intermediate''\<rparr>, Finished))"

text \<open>The position of the first occurrence of a column name in the header.\<close>

fun index_of :: "string \<Rightarrow> string list \<Rightarrow> nat" where
  "index_of c [] = 0"
| "index_of c (x # xs) = (if x = c then 0 else Suc (index_of c xs))"

text \<open>The value of a row in a column of the table.\<close>

definition value_of :: "dataframe \<Rightarrow> real option list \<Rightarrow> string \<Rightarrow> real option" where
  "value_of d r c =
     (let i = index_of c (df_columns d) in if i < length r then r ! i else None)"

text \<open>
  \<^verbatim>\<open>df.dropna(subset=cols)\<close>: the rows that have a value in every column of \<open>cols\<close>, in
  their order; a name that is no column raises \<^verbatim>\<open>KeyError\<close>.
\<close>

definition dropna :: "string list \<Rightarrow> dataframe \<Rightarrow> exn + dataframe" where
  "dropna cols d =
     (case filter (\<lambda>c. c \<notin> set (df_columns d)) cols of
        c # _ \<Rightarrow> Inl (Exn ''KeyError'' c)
      | [] \<Rightarrow> Inr (d\<lparr>df_rows := filter (\<lambda>r. list_all (\<lambda>c. value_of d r c \<noteq> None) cols)
                                   (df_rows d)\<rparr>))"

text \<open>
  \<^verbatim>\<open>df.plot(x=..., y=..., figsize=(12,5), legend=True, style='b-')\<close>: the request hands the
  plotting library one point per row, in row order.
\<close>

definition df_plot :: "dataframe \<Rightarrow> string \<Rightarrow> string \<Rightarrow> exn + plot_req" where
  "df_plot d x y =
     (if x \<notin> set (df_columns d) then Inl (Exn ''KeyError'' x)
      else if y \<notin> set (df_columns d) then Inl (Exn ''KeyError'' y)
      else Inr \<lparr>plot_x = x, plot_y = y,
                plot_points = map (\<lambda>r. (value_of d r x, value_of d r y)) (df_rows d),
                plot_figsize = (12, 5), plot_legend = True, plot_style = ''b-''\<rparr>)"

definition csv_file_name :: string where
  "csv_file_name = ''worker_0.simple_rl_graph.main_level.main_level.agent_0.csv''"

text \<open>The part of the cell that follows \<^verbatim>\<open>df = pd.read_csv(csv_file)\<close>.\<close>

definition plot_training_reward :: "world \<Rightarrow> dataframe \<Rightarrow> cell" where
  "plot_training_reward w df0 g =
     (case dropna [''Training Reward''] df0 of
        Inl e \<Rightarrow> (g, Raised e)
      | Inr df \<Rightarrow>
         (let x_axis = ''Episode #'';
              y_axis = ''Training Reward''
          in case df_plot df x_axis y_axis of
               Inl e \<Rightarrow> (g, Raised e)
             | Inr req \<Rightarrow>
                (let g1 = emit (Df_plot req) g
                 in case df_plot_call w req of
                      Inl e \<Rightarrow> (g1, Raised e)
                    | Inr _ \<Rightarrow> (emits [Set_ylabel y_axis, Set_xlabel x_axis] g1, Finished))))"

text \<open>The values of the variables \<^verbatim>\<open>key\<close> and \<^verbatim>\<open>csv_file\<close>.\<close>

definition metrics_key :: "notebook \<Rightarrow> string" where
  "metrics_key g = intermediate_folder_key g @ ''/'' @ csv_file_name"

definition metrics_csv_file :: "notebook \<Rightarrow> string" where
  "metrics_csv_file g = tmp_dir g @ ''/'' @ csv_file_name"

definition cell_plot_metrics :: "world \<Rightarrow> cell" where
  "cell_plot_metrics w g =
     (let key = metrics_key g;
          g1 = emit (Wait_for_s3_object (s3_bucket g) key (tmp_dir g)) g
      in case misc_wait_for_s3_object w (s3_bucket g) key (tmp_dir g) of
           Never_returns \<Rightarrow> (g1, Blocked)
         | Wait_raised e \<Rightarrow> (g1, Raised e)
         | Object_fetched \<Rightarrow>
            (let csv_file = metrics_csv_file g;
                 g2 = emit (Read_csv csv_file) g1
             in case pd_read_csv w csv_file of
                  Inl e \<Rightarrow> (g2, Raised e)
                | Inr df0 \<Rightarrow> plot_training_reward w df0 g2))"

subsection \<open>Clean Up\<close>

fun cancel_simulation_jobs :: "world \<Rightarrow> string list \<Rightarrow> cell" where
  "cancel_simulation_jobs w [] g = (g, Finished)"
| "cancel_simulation_jobs w (job_arn # rest) g =
     (let g1 = emit (Cancel_simulation_job job_arn) g
      in case robomaker_cancel_simulation_job w job_arn of
           Inl e \<Rightarrow> (g1, Raised e)
         | Inr _ \<Rightarrow> cancel_simulation_jobs w rest g1)"

definition cell_cancel_simulation_jobs :: "world \<Rightarrow> cell" where
  "cell_cancel_simulation_jobs w g = cancel_simulation_jobs w (job_arns g) g"

definition cell_stop_training_job :: "world \<Rightarrow> cell" where
  "cell_stop_training_job w g =
     (let g1 = emit (Stop_training_job (estimator_current_job_name g)) g
      in case sagemaker_stop_training_job w (estimator_current_job_name g) of
           Inl e \<Rightarrow> (g1, Raised e)
         | Inr _ \<Rightarrow> (g1, Finished))"

subsection \<open>Evaluation\<close>

definition cell_evaluation :: "world \<Rightarrow> cell" where
  "cell_evaluation w g =
     (let envriron_vars =
            [(''MODEL_S3_BUCKET'', s3_bucket g),
             (''MODEL_S3_PREFIX'', s3_prefix g),
             (''ROS_AWS_REGION'', aws_region g),
             (''NUMBER_OF_TRIALS'', str_int 20),
             (''MARKOV_PRESET_FILE'', RLCOACH_PRESET g @ ''.py''),
             (''WORLD_NAME'', ''hard_track'')]
      in case create_simulation_job w (simulation_job_request g ''evaluation.launch'' envriron_vars) g of
           (g1, Inl e) \<Rightarrow> (g1, Raised e)
         | (g1, Inr arn) \<Rightarrow>
             (emits [Print [PStr ''Created the following job:''],
                     Print [PStr ''Job ARN'', PStr arn]] g1, Finished))"

definition cell_delete_simulation_application :: "world \<Rightarrow> cell" where
  "cell_delete_simulation_application w g =
     (let g1 = emit (Delete_simulation_application (simulation_app_arn g)) g
      in case robomaker_delete_simulation_application w (simulation_app_arn g) of
           Inl e \<Rightarrow> (g1, Raised e)
         | Inr _ \<Rightarrow> (g1, Finished))"

section \<open>Running the notebook\<close>

text \<open>Cells run in order; the run stops at the first cell that does not finish.\<close>

fun run_cells :: "cell list \<Rightarrow> cell" where
  "run_cells [] g = (g, Finished)"
| "run_cells (c # cs) g =
     (case c g of
        (g1, Finished) \<Rightarrow> run_cells cs g1
      | (g1, out) \<Rightarrow> (g1, out))"

text \<open>The code cells up to and including the variable definitions and the region check.\<close>

definition prelude_cells :: "world \<Rightarrow> cell list" where
  "prelude_cells w = [cell_setup_s3_bucket w, cell_define_variables w]"

text \<open>The code cells after the region check.\<close>

definition later_cells :: "world \<Rightarrow> cell list" where
  "later_cells w =
     [cell_create_iam_role w,
      cell_permission_setup w,
      cell_configure_vpc w,
      cell_s3_endpoint w,
      cell_show_preset w,
      cell_upload_environment w,
      cell_train w,
      cell_robomaker_client w,
      cell_download_bundle w,
      cell_create_simulation_application w,
      cell_launch_simulation_jobs w,
      cell_robomaker_links w,
      cell_tmp_dir w,
      cell_plot_metrics w,
      cell_cancel_simulation_jobs w,
      cell_stop_training_job w,
      cell_evaluation w,
      cell_delete_simulation_application w]"

definition notebook_cells :: "world \<Rightarrow> cell list" where
  "notebook_cells w = prelude_cells w @ later_cells w"

text \<open>A fresh kernel: nothing has happened and no variable is set.\<close>

definition fresh_kernel :: notebook where
  "fresh_kernel =
     \<lparr>trace = [], clock_reads = 0, sim_job_calls = 0,
      s3_bucket = [], s3_output_path = [], job_name_prefix = [], job_name = [],
      s3_prefix = [], s3_prefix_robomaker = [], job_duration_in_seconds = 0,
      aws_region = [], role = [], default_vpc = [], default_security_groups = [],
      default_subnets = [], RLCOACH_PRESET = [], estimator_current_job_name = [],
      simulation_app_arn = [], num_simulation_workers = 0, job_arns = [],
      tmp_dir = [], intermediate_folder_key = []\<rparr>"

definition run_all :: "world \<Rightarrow> notebook \<times> outcome" where
  "run_all w = run_cells (notebook_cells w) fresh_kernel"

section \<open>Observing a run\<close>

text \<open>The events that a cell adds to the trace when it runs in state \<open>g\<close>.\<close>

definition events_of :: "cell \<Rightarrow> notebook \<Rightarrow> event list" where
  "events_of c g = drop (length (trace g)) (trace (fst (c g)))"

text \<open>The simulation-job requests among some events, in order.\<close>

fun sim_job_requests :: "event list \<Rightarrow> sim_job_req list" where
  "sim_job_requests [] = []"
| "sim_job_requests (Create_simulation_job req # evs) = req # sim_job_requests evs"
| "sim_job_requests (_ # evs) = sim_job_requests evs"

text \<open>The training-job submissions among some events, in order.\<close>

fun fit_requests :: "event list \<Rightarrow> fit_req list" where
  "fit_requests [] = []"
| "fit_requests (Estimator_fit req # evs) = req # fit_requests evs"
| "fit_requests (_ # evs) = fit_requests evs"

fun is_clock_read :: "event \<Rightarrow> bool" where
  "is_clock_read (Gmtime _) = True"
| "is_clock_read _ = False"

text \<open>The plot requests among some events, in order.\<close>

fun plot_requests :: "event list \<Rightarrow> plot_req list" where
  "plot_requests [] = []"
| "plot_requests (Df_plot req # evs) = req # plot_requests evs"
| "plot_requests (_ # evs) = plot_requests evs"

text \<open>The simulation-job requests that the launch cell sends for a worker count \<open>n\<close>.\<close>

definition launched_requests :: "int \<Rightarrow> world \<Rightarrow> notebook \<Rightarrow> sim_job_req list" where
  "launched_requests n w g = sim_job_requests (events_of (launch_simulation_jobs n w) g)"

text \<open>The value of \<^verbatim>\<open>MODEL_S3_PREFIX\<close> that a simulation application is launched with.\<close>

definition model_s3_prefix :: "simulation_application \<Rightarrow> string option" where
  "model_s3_prefix app = map_of (lc_environmentVariables (sa_launchConfig app)) ''MODEL_S3_PREFIX''"

text \<open>
  An event uses the storage prefix \<open>p\<close>: a training submission is named \<open>p\<close> and passes
  \<open>p\<close> as the hyperparameter \<^verbatim>\<open>s3_prefix\<close>; a simulation-job request passes \<open>p\<close> as
  \<^verbatim>\<open>MODEL_S3_PREFIX\<close> to each of its applications. Other events use no prefix.
\<close>

fun uses_prefix :: "string \<Rightarrow> event \<Rightarrow> bool" where
  "uses_prefix p (Estimator_fit req) =
     (fit_job_name req = p \<and> map_of (fit_hyperparameters req) ''s3_prefix'' = Some p)"
| "uses_prefix p (Create_simulation_job req) =
     list_all (\<lambda>app. model_s3_prefix app = Some p) (sj_simulationApplications req)"
| "uses_prefix p _ = True"

text \<open>
  The state of a run in which the job name is the training prefix and every event so
  far uses it.
\<close>

definition prefix_agreed :: "notebook \<Rightarrow> bool" where
  "prefix_agreed g = (job_name g = s3_prefix g \<and> list_all (uses_prefix (s3_prefix g)) (trace g))"

section \<open>Example worlds\<close>

definition example_time :: struct_time where
  "example_time = \<lparr>tm_year = 2019, tm_mon = 3, tm_mday = 7, tm_hour = 9, tm_min = 5, tm_sec = 0,
                    tm_wday = 3, tm_yday = 66, tm_isdst = 0\<rparr>"

definition example_metrics :: dataframe where
  "example_metrics =
     \<lparr>df_columns = [''Episode #'', ''Epoch'', ''Training Reward''],
      df_rows = [[Some 1, Some 0, Some (-10)],
                 [Some 2, Some 0, None],
                 [Some 3, Some 1, Some 25],
                 [Some 4, Some 1, None],
                 [Some 5, Some 1, Some 12]]\<rparr>"

text \<open>
  A world in which every call succeeds; three consecutive clock reads fall into the
  same second.
\<close>

definition world_ok :: world where
  "world_ok =
     \<lparr>gmtime_at = (\<lambda>k. example_time\<lparr>tm_sec := int (k div 3)\<rparr>),
      sage_boto_region_name = ''us-east-1'',
      sage_default_bucket = Inr ''sagemaker-us-east-1-123456789012'',
      sagemaker_get_execution_role = Inr ''arn:aws:iam::123456789012:role/sagemaker'',
      misc_get_execution_role = (\<lambda>n. Inr ''arn:aws:iam::123456789012:role/sagemaker''),
      ec2_describe_vpcs = Inr [\<lparr>vpc_VpcId = ''vpc-1'', vpc_IsDefault = True\<rparr>],
      ec2_describe_security_groups =
        Inr [\<lparr>sg_GroupId = ''sg-1'', sg_GroupName = ''default'', sg_VpcId = ''vpc-1''\<rparr>],
      ec2_describe_subnets =
        Inr [\<lparr>sn_SubnetId = ''subnet-1'', sn_VpcId = ''vpc-1'', sn_DefaultForAz = True\<rparr>],
      ec2_describe_route_tables = Inr [\<lparr>rt_RouteTableId = ''rtb-1'', rt_VpcId = ''vpc-1''\<rparr>],
      ec2_create_vpc_endpoint = (\<lambda>req. Inr ()),
      estimator_fit = (\<lambda>req. Inr ()),
      robomaker_create_simulation_application = (\<lambda>req. Inr ''arn:app''),
      robomaker_create_simulation_job = (\<lambda>k req. Inr (''arn:job-'' @ str_nat k)),
      misc_wait_for_s3_object = (\<lambda>bucket key dir. Object_fetched),
      pd_read_csv = (\<lambda>file. Inr example_metrics),
      df_plot_call = (\<lambda>req. Inr ()),
      robomaker_cancel_simulation_job = (\<lambda>arn. Inr ()),
      sagemaker_stop_training_job = (\<lambda>name. Inr ()),
      robomaker_delete_simulation_application = (\<lambda>arn. Inr ())\<rparr>"

text \<open>The same world seen from a region that the notebook does not support.\<close>

definition world_other_region :: world where
  "world_other_region =
     world_ok\<lparr>sage_boto_region_name := ''ap-southeast-2'',
              sage_default_bucket := Inr ''sagemaker-ap-southeast-2-123456789012''\<rparr>"

definition unauthorized_error :: exn where
  "unauthorized_error = Exn ''ClientError''
     (''An error occurred (UnauthorizedOperation) when calling the operation: '' @
      ''You are not authorized to perform this operation.'')"

definition route_exists_error :: exn where
  "route_exists_error = Exn ''ClientError''
     (''An error occurred (RouteAlreadyExists) when calling the CreateVpcEndpoint operation: '' @
      ''route table rtb-1 already has a route with destination-prefix-list-id pl-1'')"

text \<open>A message that names both conditions.\<close>

definition both_conditions_error :: exn where
  "both_conditions_error = Exn ''ClientError''
     (''An error occurred (UnauthorizedOperation) when calling the CreateVpcEndpoint operation: '' @
      ''RouteAlreadyExists'')"

text \<open>Worlds in which one networking call fails.\<close>

definition world_vpcs_unauthorized :: world where
  "world_vpcs_unauthorized = world_ok\<lparr>ec2_describe_vpcs := Inl unauthorized_error\<rparr>"

definition world_route_tables_unauthorized :: world where
  "world_route_tables_unauthorized = world_ok\<lparr>ec2_describe_route_tables := Inl unauthorized_error\<rparr>"

definition world_endpoint_unauthorized :: world where
  "world_endpoint_unauthorized = world_ok\<lparr>ec2_create_vpc_endpoint := (\<lambda>req. Inl unauthorized_error)\<rparr>"

definition world_endpoint_exists :: world where
  "world_endpoint_exists = world_ok\<lparr>ec2_create_vpc_endpoint := (\<lambda>req. Inl route_exists_error)\<rparr>"

definition world_endpoint_both :: world where
  "world_endpoint_both = world_ok\<lparr>ec2_create_vpc_endpoint := (\<lambda>req. Inl both_conditions_error)\<rparr>"

definition world_no_route_tables :: world where
  "world_no_route_tables =
     world_ok\<lparr>ec2_describe_route_tables := Inr [\<lparr>rt_RouteTableId = ''rtb-9'', rt_VpcId = ''vpc-9''\<rparr>]\<rparr>"

text \<open>The state in which the networking cells of the example run start.\<close>

definition example_state :: notebook where
  "example_state =
     fresh_kernel\<lparr>s3_bucket := ''sagemaker-us-east-1-123456789012'',
                  aws_region := ''us-east-1'',
                  role := ''arn:aws:iam::123456789012:role/sagemaker'',
                  default_vpc := ''vpc-1'',
                  default_security_groups := [''sg-1''],
                  default_subnets := [''subnet-1''],
                  simulation_app_arn := ''arn:app''\<rparr>"

text \<open>The example state after the launch cell, and after the cells up to the clean-up.\<close>

definition example_launched :: notebook where
  "example_launched = fst (cell_launch_simulation_jobs world_ok example_state)"

definition example_before_cleanup :: notebook where
  "example_before_cleanup =
     fst (run_cells [cell_robomaker_links world_ok, cell_tmp_dir world_ok, cell_plot_metrics world_ok]
            example_launched)"

section \<open>Properties\<close>

subsection \<open>Substrings\<close>

lemma str_in_self_append: "str_in n (n @ s)"
proof (cases "n @ s")
  case Nil
  then show ?thesis by simp
next
  case (Cons c cs)
  have "prefix n (n @ s)" by simp
  then show ?thesis unfolding Cons by simp
qed

lemma str_in_append: "str_in n (p @ n @ s)"
  by (induction p) (auto simp: str_in_self_append)

lemma str_in_iff: "str_in n h \<longleftrightarrow> (\<exists>p s. h = p @ n @ s)"
proof
  show "str_in n h \<Longrightarrow> \<exists>p s. h = p @ n @ s"
  proof (induction h)
    case Nil
    then show ?case by simp
  next
    case (Cons c cs)
    then show ?case
    proof (cases "prefix n (c # cs)")
      case True
      then obtain s where "c # cs = n @ s" by (auto simp: prefix_def)
      then have "c # cs = [] @ n @ s" by simp
      then show ?thesis by blast
    next
      case False
      with Cons obtain p s where "cs = p @ n @ s" by auto
      then have "c # cs = (c # p) @ n @ s" by simp
      then show ?thesis by blast
    qed
  qed
next
  show "\<exists>p s. h = p @ n @ s \<Longrightarrow> str_in n h"
    by (auto simp: str_in_append)
qed

subsection \<open>Job naming\<close>

lemma define_variables_names:
  "job_name (fst (cell_define_variables w g)) =
     ''rl-deepracer'' @ ''-sagemaker-'' @ strftime ''%y%m%d-%H%M%S'' (gmtime_at w (clock_reads g))"
  "s3_prefix (fst (cell_define_variables w g)) =
     ''rl-deepracer'' @ ''-sagemaker-'' @ strftime ''%y%m%d-%H%M%S'' (gmtime_at w (clock_reads g))"
  "s3_prefix_robomaker (fst (cell_define_variables w g)) =
     ''rl-deepracer'' @ ''-robomaker-'' @ strftime ''%y%m%d-%H%M%S'' (gmtime_at w (clock_reads g))"
  by (simp_all add: cell_define_variables_def gmtime_def emit_def Let_def)

text \<open>
  C3. Whatever the clock returns, the training-job name that the cell "Define
  Variables" generates begins with \<^verbatim>\<open>rl-deepracer\<close> and contains \<^verbatim>\<open>sagemaker\<close>, and the
  simulation output prefix contains \<^verbatim>\<open>robomaker\<close>.
\<close>

theorem job_name_markers:
  "prefix ''rl-deepracer'' (job_name (fst (cell_define_variables w g)))
   \<and> str_in ''sagemaker'' (job_name (fst (cell_define_variables w g)))
   \<and> str_in ''robomaker'' (s3_prefix_robomaker (fst (cell_define_variables w g)))"
proof -
  let ?stamp = "strftime ''%y%m%d-%H%M%S'' (gmtime_at w (clock_reads g))"
  have "str_in ''sagemaker'' (''rl-deepracer-'' @ ''sagemaker'' @ (''-'' @ ?stamp))"
    by (rule str_in_append)
  moreover have "str_in ''robomaker'' (''rl-deepracer-'' @ ''robomaker'' @ (''-'' @ ?stamp))"
    by (rule str_in_append)
  ultimately show ?thesis
    by (simp add: define_variables_names)
qed

theorem job_name_markers_witness:
  "job_name (fst (cell_define_variables world_ok fresh_kernel)) =
     ''rl-deepracer-sagemaker-190307-090500''
   \<and> s3_prefix_robomaker (fst (cell_define_variables world_ok fresh_kernel)) =
     ''rl-deepracer-robomaker-190307-090500''
   \<and> prefix ''rl-deepracer'' ''rl-deepracer-sagemaker-190307-090500''
   \<and> str_in ''sagemaker'' ''rl-deepracer-sagemaker-190307-090500''
   \<and> str_in ''robomaker'' ''rl-deepracer-robomaker-190307-090500''"
proof -
  have a: "job_name (fst (cell_define_variables world_ok fresh_kernel)) =
             ''rl-deepracer-sagemaker-190307-090500''"
    by code_simp
  have b: "s3_prefix_robomaker (fst (cell_define_variables world_ok fresh_kernel)) =
             ''rl-deepracer-robomaker-190307-090500''"
    by code_simp
  show ?thesis
    using job_name_markers [of world_ok fresh_kernel] by (simp add: a b)
qed

text \<open>
  C10. The cell "Define Variables" reads the clock exactly once, and formats the
  training prefix and the simulation output prefix from that one value: both carry the
  same timestamp suffix after \<^verbatim>\<open>rl-deepracer\<close>, and differ in the marker
  (\<^verbatim>\<open>-sagemaker-\<close> against \<^verbatim>\<open>-robomaker-\<close>) only.
\<close>

theorem prefixes_share_one_clock_read:
  "s3_prefix (fst (cell_define_variables w g)) =
      ''rl-deepracer'' @ ''-sagemaker-'' @ strftime ''%y%m%d-%H%M%S'' (gmtime_at w (clock_reads g))
   \<and> s3_prefix_robomaker (fst (cell_define_variables w g)) =
      ''rl-deepracer'' @ ''-robomaker-'' @ strftime ''%y%m%d-%H%M%S'' (gmtime_at w (clock_reads g))
   \<and> clock_reads (fst (cell_define_variables w g)) = Suc (clock_reads g)
   \<and> filter is_clock_read (events_of (cell_define_variables w) g) =
      [Gmtime (gmtime_at w (clock_reads g))]"
  by (simp add: cell_define_variables_def gmtime_def emit_def Let_def events_of_def)

theorem prefixes_share_one_clock_read_witness:
  "s3_prefix (fst (cell_define_variables world_ok fresh_kernel)) =
      ''rl-deepracer-sagemaker-190307-090500''
   \<and> s3_prefix_robomaker (fst (cell_define_variables world_ok fresh_kernel)) =
      ''rl-deepracer-robomaker-190307-090500''
   \<and> clock_reads (fst (cell_define_variables world_ok fresh_kernel)) = 1
   \<and> filter is_clock_read (events_of (cell_define_variables world_ok) fresh_kernel) =
      [Gmtime example_time]"
proof -
  have stamp: "strftime ''%y%m%d-%H%M%S'' example_time = ''190307-090500''"
    by code_simp
  have reads: "clock_reads fresh_kernel = 0"
    by (simp add: fresh_kernel_def)
  have tm: "gmtime_at world_ok 0 = example_time"
    by (simp add: world_ok_def example_time_def)
  show ?thesis
    using prefixes_share_one_clock_read [of world_ok fresh_kernel]
    unfolding reads tm stamp by simp
qed

subsection \<open>The storage endpoint\<close>

text \<open>
  C6. When the route-table list holds no entry for the default VPC, the assertion fails
  and the cell has issued the describe call and a print only: no endpoint creation is
  attempted.
\<close>

theorem no_route_tables_no_endpoint:
  assumes "ec2_describe_route_tables w = Inr tables"
      and "vpc_route_tables g tables = []"
  shows "snd (cell_s3_endpoint w g) = Raised no_route_tables_error
         \<and> exn_class no_route_tables_error = ''AssertionError''
         \<and> events_of (cell_s3_endpoint w) g =
             [Describe_route_tables,
              Print [PStr ''Trying to attach S3 endpoints to the following route tables:'', PList []]]"
  using assms
  by (simp add: cell_s3_endpoint_def Let_def emit_def events_of_def no_route_tables_error_def)

theorem no_route_tables_no_endpoint_witness:
  "ec2_describe_route_tables world_no_route_tables = Inr [\<lparr>rt_RouteTableId = ''rtb-9'', rt_VpcId = ''vpc-9''\<rparr>]
   \<and> vpc_route_tables example_state [\<lparr>rt_RouteTableId = ''rtb-9'', rt_VpcId = ''vpc-9''\<rparr>] = []
   \<and> snd (cell_s3_endpoint world_no_route_tables example_state) = Raised no_route_tables_error
   \<and> events_of (cell_s3_endpoint world_no_route_tables) example_state =
        [Describe_route_tables,
         Print [PStr ''Trying to attach S3 endpoints to the following route tables:'', PList []]]"
proof -
  have a: "ec2_describe_route_tables world_no_route_tables =
             Inr [\<lparr>rt_RouteTableId = ''rtb-9'', rt_VpcId = ''vpc-9''\<rparr>]"
    by (simp add: world_no_route_tables_def)
  have b: "vpc_route_tables example_state [\<lparr>rt_RouteTableId = ''rtb-9'', rt_VpcId = ''vpc-9''\<rparr>] = []"
    by (simp add: vpc_route_tables_def example_state_def fresh_kernel_def)
  show ?thesis
    using no_route_tables_no_endpoint [OF a b] a b by simp
qed

text \<open>
  C4. Whenever the cell issues the endpoint-creation call and the call raises an
  exception whose text contains \<^verbatim>\<open>RouteAlreadyExists\<close>, the cell finishes without raising;
  the last thing it does is to print that the endpoint exists.
\<close>

theorem route_already_exists_is_success:
  assumes "Create_vpc_endpoint req \<in> set (events_of (cell_s3_endpoint w) g)"
      and "ec2_create_vpc_endpoint w req = Inl e"
      and "str_in ''RouteAlreadyExists'' (exn_str e)"
  shows "snd (cell_s3_endpoint w g) = Finished
         \<and> last (trace (fst (cell_s3_endpoint w g))) = Print [PStr ''S3 endpoint already exists.'']"
  using assms
  by (auto simp: cell_s3_endpoint_def Let_def emit_def events_of_def
           split: sum.splits if_splits)

theorem route_already_exists_is_success_witness:
  "Create_vpc_endpoint (endpoint_request example_state [''rtb-1''])
      \<in> set (events_of (cell_s3_endpoint world_endpoint_exists) example_state)
   \<and> ec2_create_vpc_endpoint world_endpoint_exists (endpoint_request example_state [''rtb-1''])
      = Inl route_exists_error
   \<and> str_in ''RouteAlreadyExists'' (exn_str route_exists_error)
   \<and> snd (cell_s3_endpoint world_endpoint_exists example_state) = Finished"
proof -
  have a: "Create_vpc_endpoint (endpoint_request example_state [''rtb-1''])
             \<in> set (events_of (cell_s3_endpoint world_endpoint_exists) example_state)"
    by code_simp
  have b: "ec2_create_vpc_endpoint world_endpoint_exists (endpoint_request example_state [''rtb-1''])
             = Inl route_exists_error"
    by (simp add: world_endpoint_exists_def)
  have c: "str_in ''RouteAlreadyExists'' (exn_str route_exists_error)"
    by code_simp
  show ?thesis
    using route_already_exists_is_success [OF a b c] a b c by simp
qed

text \<open>
  C5, as stated, fails twice. The describe calls of the cell "Configure VPC" stand in no
  \<^verbatim>\<open>try\<close>: when one of them raises an exception whose text contains
  \<^verbatim>\<open>UnauthorizedOperation\<close>, the exception leaves the cell and nothing is displayed. And
  the handler of the endpoint creation tests for \<^verbatim>\<open>RouteAlreadyExists\<close> first: an exception
  whose text contains both words is swallowed.
\<close>

theorem unauthorized_without_help:
  "ec2_describe_vpcs world_vpcs_unauthorized = Inl unauthorized_error
   \<and> str_in ''UnauthorizedOperation'' (exn_str unauthorized_error)
   \<and> snd (cell_configure_vpc world_vpcs_unauthorized fresh_kernel) = Raised unauthorized_error
   \<and> events_of (cell_configure_vpc world_vpcs_unauthorized) fresh_kernel =
        [Boto3_client ''ec2'', Describe_vpcs]
   \<and> ec2_create_vpc_endpoint world_endpoint_both (endpoint_request example_state [''rtb-1'']) =
        Inl both_conditions_error
   \<and> str_in ''UnauthorizedOperation'' (exn_str both_conditions_error)
   \<and> snd (cell_s3_endpoint world_endpoint_both example_state) = Finished
   \<and> events_of (cell_s3_endpoint world_endpoint_both) example_state =
        [Describe_route_tables,
         Print [PStr ''Trying to attach S3 endpoints to the following route tables:'',
                PList [''rtb-1'']],
         Create_vpc_endpoint (endpoint_request example_state [''rtb-1'']),
         Print [PStr ''S3 endpoint already exists.'']]"
  proof -
  have tr0: "trace fresh_kernel = []"
    by (simp add: fresh_kernel_def)
  have tr1: "trace example_state = []"
    by (simp add: example_state_def fresh_kernel_def)
  have vpcs: "cell_configure_vpc world_vpcs_unauthorized fresh_kernel =
                (emit Describe_vpcs (emit (Boto3_client ''ec2'') fresh_kernel), Raised unauthorized_error)"
    by (simp add: cell_configure_vpc_def world_vpcs_unauthorized_def Let_def)
  have a: "ec2_describe_vpcs world_vpcs_unauthorized = Inl unauthorized_error"
    by (simp add: world_vpcs_unauthorized_def)
  have b: "str_in ''UnauthorizedOperation'' (exn_str unauthorized_error)"
    by (simp add: unauthorized_error_def)
  have c: "events_of (cell_configure_vpc world_vpcs_unauthorized) fresh_kernel =
             [Boto3_client ''ec2'', Describe_vpcs]"
    by (simp add: events_of_def vpcs emit_def tr0)
  have d: "ec2_create_vpc_endpoint world_endpoint_both (endpoint_request example_state [''rtb-1'']) =
             Inl both_conditions_error"
    by (simp add: world_endpoint_both_def)
  have e: "str_in ''UnauthorizedOperation'' (exn_str both_conditions_error)"
    by (simp add: both_conditions_error_def)
  have f: "str_in ''RouteAlreadyExists'' (exn_str both_conditions_error)"
    by (simp add: both_conditions_error_def)
  have tables: "ec2_describe_route_tables world_endpoint_both =
                  Inr [\<lparr>rt_RouteTableId = ''rtb-1'', rt_VpcId = ''vpc-1''\<rparr>]"
    by (simp add: world_endpoint_both_def world_ok_def)
  have rts: "vpc_route_tables example_state [\<lparr>rt_RouteTableId = ''rtb-1'', rt_VpcId = ''vpc-1''\<rparr>] =
               [''rtb-1'']"
    by (simp add: vpc_route_tables_def example_state_def)
  have endpoint: "cell_s3_endpoint world_endpoint_both example_state =
      (emit (Print [PStr ''S3 endpoint already exists.''])
         (emit (Create_vpc_endpoint (endpoint_request example_state [''rtb-1'']))
            (emit (Print [PStr ''Trying to attach S3 endpoints to the following route tables:'',
                          PList [''rtb-1'']])
               (emit Describe_route_tables example_state))),
       Finished)"
    by (simp add: cell_s3_endpoint_def tables rts d f Let_def)
  have g: "events_of (cell_s3_endpoint world_endpoint_both) example_state =
        [Describe_route_tables,
         Print [PStr ''Trying to attach S3 endpoints to the following route tables:'',
                PList [''rtb-1'']],
         Create_vpc_endpoint (endpoint_request example_state [''rtb-1'']),
         Print [PStr ''S3 endpoint already exists.'']]"
    by (simp add: events_of_def endpoint emit_def tr1)
  show ?thesis
    using a b c d e g by (simp add: vpcs endpoint)
qed

text \<open>
  C5, amended. In the cell that creates the storage endpoint: when the route-table
  listing raises an exception whose text contains \<^verbatim>\<open>UnauthorizedOperation\<close>, or the endpoint
  creation raises one whose text contains \<^verbatim>\<open>UnauthorizedOperation\<close> and not
  \<^verbatim>\<open>RouteAlreadyExists\<close>, the permissions help is displayed next and then the same
  exception is raised again.
\<close>

theorem unauthorized_shows_help_and_reraises:
  "(ec2_describe_route_tables w = Inl e \<and> str_in ''UnauthorizedOperation'' (exn_str e) \<longrightarrow>
      snd (cell_s3_endpoint w g) = Raised e
      \<and> events_of (cell_s3_endpoint w) g =
          [Describe_route_tables, Display (Help_for_s3_endpoint_permissions (role g))])
   \<and> (Create_vpc_endpoint req \<in> set (events_of (cell_s3_endpoint w) g)
      \<and> ec2_create_vpc_endpoint w req = Inl e
      \<and> str_in ''UnauthorizedOperation'' (exn_str e)
      \<and> \<not> str_in ''RouteAlreadyExists'' (exn_str e) \<longrightarrow>
      snd (cell_s3_endpoint w g) = Raised e
      \<and> (\<exists>evs. events_of (cell_s3_endpoint w) g =
            evs @ [Create_vpc_endpoint req, Display (Help_for_s3_endpoint_permissions (role g))]))"
  by (auto simp: cell_s3_endpoint_def Let_def emit_def events_of_def
           split: sum.splits if_splits)

theorem unauthorized_shows_help_and_reraises_witness:
  "ec2_describe_route_tables world_route_tables_unauthorized = Inl unauthorized_error
   \<and> str_in ''UnauthorizedOperation'' (exn_str unauthorized_error)
   \<and> snd (cell_s3_endpoint world_route_tables_unauthorized example_state) = Raised unauthorized_error
   \<and> events_of (cell_s3_endpoint world_route_tables_unauthorized) example_state =
       [Describe_route_tables, Display (Help_for_s3_endpoint_permissions (role example_state))]
   \<and> Create_vpc_endpoint (endpoint_request example_state [''rtb-1''])
       \<in> set (events_of (cell_s3_endpoint world_endpoint_unauthorized) example_state)
   \<and> ec2_create_vpc_endpoint world_endpoint_unauthorized (endpoint_request example_state [''rtb-1''])
       = Inl unauthorized_error
   \<and> \<not> str_in ''RouteAlreadyExists'' (exn_str unauthorized_error)
   \<and> snd (cell_s3_endpoint world_endpoint_unauthorized example_state) = Raised unauthorized_error
   \<and> last (events_of (cell_s3_endpoint world_endpoint_unauthorized) example_state) =
       Display (Help_for_s3_endpoint_permissions (role example_state))"
proof -
  have a: "ec2_describe_route_tables world_route_tables_unauthorized = Inl unauthorized_error"
    by (simp add: world_route_tables_unauthorized_def)
  have b: "str_in ''UnauthorizedOperation'' (exn_str unauthorized_error)"
    by code_simp
  have c: "Create_vpc_endpoint (endpoint_request example_state [''rtb-1''])
             \<in> set (events_of (cell_s3_endpoint world_endpoint_unauthorized) example_state)"
    by code_simp
  have d: "ec2_create_vpc_endpoint world_endpoint_unauthorized
             (endpoint_request example_state [''rtb-1'']) = Inl unauthorized_error"
    by (simp add: world_endpoint_unauthorized_def)
  have e: "\<not> str_in ''RouteAlreadyExists'' (exn_str unauthorized_error)"
    by code_simp
  from unauthorized_shows_help_and_reraises
         [of world_route_tables_unauthorized unauthorized_error example_state] a b
  have first: "snd (cell_s3_endpoint world_route_tables_unauthorized example_state) =
                 Raised unauthorized_error
               \<and> events_of (cell_s3_endpoint world_route_tables_unauthorized) example_state =
                 [Describe_route_tables, Display (Help_for_s3_endpoint_permissions (role example_state))]"
    by blast
  from unauthorized_shows_help_and_reraises
         [of world_endpoint_unauthorized unauthorized_error example_state
             "endpoint_request example_state [''rtb-1'']"] b c d e
  have second: "snd (cell_s3_endpoint world_endpoint_unauthorized example_state) =
                  Raised unauthorized_error
                \<and> (\<exists>evs. events_of (cell_s3_endpoint world_endpoint_unauthorized) example_state =
                      evs @ [Create_vpc_endpoint (endpoint_request example_state [''rtb-1'']),
                             Display (Help_for_s3_endpoint_permissions (role example_state))])"
    by blast
  then have "last (events_of (cell_s3_endpoint world_endpoint_unauthorized) example_state) =
               Display (Help_for_s3_endpoint_permissions (role example_state))"
    by auto
  with first second a b c d e show ?thesis by blast
qed

subsection \<open>The region check\<close>

lemma run_cells_append:
  "run_cells (xs @ ys) g =
     (case run_cells xs g of
        (g1, Finished) \<Rightarrow> run_cells ys g1
      | (g1, out) \<Rightarrow> (g1, out))"
  by (induction xs arbitrary: g) (auto split: prod.splits outcome.splits)

lemma run_all_stops_in_prelude:
  "snd (run_cells (prelude_cells w) fresh_kernel) \<noteq> Finished \<Longrightarrow>
     run_all w = run_cells (prelude_cells w) fresh_kernel"
  by (cases "run_cells (prelude_cells w) fresh_kernel")
     (auto simp: run_all_def notebook_cells_def run_cells_append split: outcome.splits)

lemma region_check_outcome:
  "snd (cell_define_variables w g) =
     (if sage_boto_region_name w \<in> set supported_regions then Finished else Raised region_error)"
  by (simp add: cell_define_variables_def gmtime_def emit_def Let_def)

lemma prelude_rejects:
  assumes "sage_boto_region_name w \<notin> set supported_regions"
  shows "(\<exists>e. snd (run_cells (prelude_cells w) fresh_kernel) = Raised e)
         \<and> filter network_call (trace (fst (run_cells (prelude_cells w) fresh_kernel))) = [Default_bucket]"
  using assms
  by (cases "sage_default_bucket w")
     (simp_all add: prelude_cells_def cell_setup_s3_bucket_def cell_define_variables_def
        gmtime_def emit_def Let_def fresh_kernel_def)

text \<open>
  C1, as stated, fails: in an unsupported region the run has already asked the storage
  service for the default bucket (cell "Setup S3 bucket") when the check raises.
\<close>

theorem rejection_after_default_bucket:
  "sage_boto_region_name world_other_region \<notin> set supported_regions
   \<and> snd (run_all world_other_region) = Raised region_error
   \<and> trace (fst (run_all world_other_region)) =
        [Sagemaker_Session, Default_bucket, Gmtime example_time]
   \<and> network_call Default_bucket"
proof -
  have region: "sage_boto_region_name world_other_region = ''ap-southeast-2''"
    by (simp add: world_other_region_def)
  have bucket: "sage_default_bucket world_other_region = Inr ''sagemaker-ap-southeast-2-123456789012''"
    by (simp add: world_other_region_def)
  have clock: "gmtime_at world_other_region 0 = example_time"
    by (simp add: world_other_region_def world_ok_def example_time_def)
  have out: "snd (run_cells (prelude_cells world_other_region) fresh_kernel) = Raised region_error"
    by (simp add: prelude_cells_def cell_setup_s3_bucket_def cell_define_variables_def
          gmtime_def emit_def Let_def region bucket supported_regions_def)
  have tr: "trace (fst (run_cells (prelude_cells world_other_region) fresh_kernel)) =
              [Sagemaker_Session, Default_bucket, Gmtime example_time]"
    by (simp add: prelude_cells_def cell_setup_s3_bucket_def cell_define_variables_def
          gmtime_def emit_def Let_def region bucket clock supported_regions_def fresh_kernel_def)
  have "run_all world_other_region = run_cells (prelude_cells world_other_region) fresh_kernel"
    using out by (simp add: run_all_stops_in_prelude)
  with out tr show ?thesis
    by (simp add: region supported_regions_def)
qed

text \<open>
  C1, amended. The region check accepts exactly the three regions \<^verbatim>\<open>us-west-2\<close>,
  \<^verbatim>\<open>us-east-1\<close> and \<^verbatim>\<open>eu-west-1\<close>. For every other value of the active region the check
  raises its exception, the run of the notebook ends with an exception, and the only
  request that the run has sent over the network is the default-bucket lookup of the
  cell "Setup S3 bucket": no role, networking, upload, training or simulation call.
\<close>

theorem region_check:
  "(snd (cell_define_variables w g) = Finished) =
     (sage_boto_region_name w \<in> {''us-west-2'', ''us-east-1'', ''eu-west-1''})
   \<and> (sage_boto_region_name w \<notin> {''us-west-2'', ''us-east-1'', ''eu-west-1''} \<longrightarrow>
        snd (cell_define_variables w g) = Raised region_error
        \<and> (\<exists>e. snd (run_all w) = Raised e)
        \<and> filter network_call (trace (fst (run_all w))) = [Default_bucket])"
proof -
  have set_eq: "set supported_regions = {''us-west-2'', ''us-east-1'', ''eu-west-1''}"
    by (simp add: supported_regions_def)
  have accept: "(snd (cell_define_variables w g) = Finished) =
                  (sage_boto_region_name w \<in> set supported_regions)"
    by (simp add: region_check_outcome)
  have reject: "snd (cell_define_variables w g) = Raised region_error
                \<and> (\<exists>e. snd (run_all w) = Raised e)
                \<and> filter network_call (trace (fst (run_all w))) = [Default_bucket]"
    if out: "sage_boto_region_name w \<notin> set supported_regions"
  proof -
    from prelude_rejects [OF out] obtain e where
      e: "snd (run_cells (prelude_cells w) fresh_kernel) = Raised e" and
      calls: "filter network_call (trace (fst (run_cells (prelude_cells w) fresh_kernel))) =
                [Default_bucket]"
      by blast
    have "run_all w = run_cells (prelude_cells w) fresh_kernel"
      using e
      by (cases "run_cells (prelude_cells w) fresh_kernel")
         (simp add: run_all_def notebook_cells_def run_cells_append)
    with e calls out show ?thesis
      by (simp add: region_check_outcome)
  qed
  show ?thesis
    using accept reject unfolding set_eq by blast
qed

theorem region_check_witness:
  "snd (cell_define_variables world_ok fresh_kernel) = Finished
   \<and> sage_boto_region_name world_ok \<in> {''us-west-2'', ''us-east-1'', ''eu-west-1''}
   \<and> sage_boto_region_name world_other_region \<notin> {''us-west-2'', ''us-east-1'', ''eu-west-1''}
   \<and> snd (cell_define_variables world_other_region fresh_kernel) = Raised region_error
   \<and> filter network_call (trace (fst (run_all world_other_region))) = [Default_bucket]"
proof -
  have a: "sage_boto_region_name world_ok \<in> {''us-west-2'', ''us-east-1'', ''eu-west-1''}"
    by (simp add: world_ok_def)
  have b: "sage_boto_region_name world_other_region \<notin> {''us-west-2'', ''us-east-1'', ''eu-west-1''}"
    by (simp add: world_other_region_def)
  show ?thesis
    using region_check [of world_ok fresh_kernel] region_check [of world_other_region fresh_kernel] a b
    by blast
qed

subsection \<open>Agreement on the storage prefix\<close>

lemma prelude_agreed: "prefix_agreed (fst (run_cells (prelude_cells w) fresh_kernel))"
  by (cases "sage_default_bucket w")
     (simp_all add: prefix_agreed_def prelude_cells_def cell_setup_s3_bucket_def
        cell_define_variables_def gmtime_def emit_def Let_def fresh_kernel_def)

lemma run_cells_agreed:
  assumes "\<And>c h. c \<in> set cs \<Longrightarrow> prefix_agreed h \<Longrightarrow> prefix_agreed (fst (c h))"
      and "prefix_agreed g"
  shows "prefix_agreed (fst (run_cells cs g))"
  using assms
proof (induction cs arbitrary: g)
  case Nil
  then show ?case by simp
next
  case (Cons c cs)
  have step: "prefix_agreed (fst (c g))"
    using Cons.prems by simp
  show ?case
  proof (cases "c g")
    case (Pair g1 out)
    with step have g1: "prefix_agreed g1" by simp
    show ?thesis
    proof (cases out)
      case Finished
      have "prefix_agreed (fst (run_cells cs g1))"
        using Cons.IH [of g1] Cons.prems(1) g1 by simp
      with Pair Finished show ?thesis by simp
    next
      case (Raised e)
      with Pair g1 show ?thesis by simp
    next
      case Blocked
      with Pair g1 show ?thesis by simp
    qed
  qed
qed

lemma agreed_create_iam_role: "prefix_agreed g \<Longrightarrow> prefix_agreed (fst (cell_create_iam_role w g))"
  by (auto simp: prefix_agreed_def cell_create_iam_role_def emit_def Let_def split: sum.splits)

lemma agreed_permission_setup: "prefix_agreed g \<Longrightarrow> prefix_agreed (fst (cell_permission_setup w g))"
  by (simp add: prefix_agreed_def cell_permission_setup_def emit_def)

lemma agreed_configure_vpc: "prefix_agreed g \<Longrightarrow> prefix_agreed (fst (cell_configure_vpc w g))"
  by (auto simp: prefix_agreed_def cell_configure_vpc_def emit_def emits_def Let_def
           split: sum.splits list.splits)

lemma agreed_s3_endpoint: "prefix_agreed g \<Longrightarrow> prefix_agreed (fst (cell_s3_endpoint w g))"
  by (auto simp: prefix_agreed_def cell_s3_endpoint_def emit_def Let_def split: sum.splits)

lemma agreed_show_preset: "prefix_agreed g \<Longrightarrow> prefix_agreed (fst (cell_show_preset w g))"
  by (simp add: prefix_agreed_def cell_show_preset_def emit_def)

lemma agreed_upload_environment:
  "prefix_agreed g \<Longrightarrow> prefix_agreed (fst (cell_upload_environment w g))"
  by (simp add: prefix_agreed_def cell_upload_environment_def emits_def Let_def)

lemma agreed_train: "prefix_agreed g \<Longrightarrow> prefix_agreed (fst (cell_train w g))"
  by (auto simp: prefix_agreed_def cell_train_def emit_def Let_def split: sum.splits)

lemma agreed_robomaker_client: "prefix_agreed g \<Longrightarrow> prefix_agreed (fst (cell_robomaker_client w g))"
  by (simp add: prefix_agreed_def cell_robomaker_client_def emit_def)

lemma agreed_download_bundle: "prefix_agreed g \<Longrightarrow> prefix_agreed (fst (cell_download_bundle w g))"
  by (simp add: prefix_agreed_def cell_download_bundle_def emits_def)

lemma agreed_create_simulation_application:
  "prefix_agreed g \<Longrightarrow> prefix_agreed (fst (cell_create_simulation_application w g))"
  by (auto simp: prefix_agreed_def cell_create_simulation_application_def gmtime_def emit_def Let_def
           split: sum.splits)

text \<open>One request, built by a function \<open>mk\<close> whose requests all use the prefix.\<close>

lemma agreed_create_simulation_job:
  assumes "prefix_agreed g"
      and "\<And>token. uses_prefix (s3_prefix g) (Create_simulation_job (mk token))"
  shows "prefix_agreed (fst (create_simulation_job w mk g))
         \<and> s3_prefix (fst (create_simulation_job w mk g)) = s3_prefix g"
  using assms
  by (simp add: prefix_agreed_def create_simulation_job_def gmtime_def emit_def Let_def)

lemma agreed_create_simulation_jobs:
  assumes "prefix_agreed g"
      and "\<And>token. uses_prefix (s3_prefix g) (Create_simulation_job (mk token))"
  shows "prefix_agreed (fst (create_simulation_jobs w mk n rs g))
         \<and> s3_prefix (fst (create_simulation_jobs w mk n rs g)) = s3_prefix g"
  using assms
proof (induction n arbitrary: g rs)
  case 0
  then show ?case by simp
next
  case (Suc n)
  obtain g1 r where one: "create_simulation_job w mk g = (g1, r)"
    by (cases "create_simulation_job w mk g")
  from agreed_create_simulation_job [where g = g and mk = mk and w = w] Suc.prems one
  have g1: "prefix_agreed g1" "s3_prefix g1 = s3_prefix g"
    by simp_all
  show ?case
  proof (cases r)
    case (Inl e)
    with one g1 show ?thesis by simp
  next
    case (Inr arn)
    have "prefix_agreed (fst (create_simulation_jobs w mk n (rs @ [arn]) g1))
          \<and> s3_prefix (fst (create_simulation_jobs w mk n (rs @ [arn]) g1)) = s3_prefix g1"
      using Suc.IH [where g = g1] g1 Suc.prems(2) by simp
    with one Inr g1 show ?thesis by simp
  qed
qed

lemma request_uses_prefix:
  "map_of envs ''MODEL_S3_PREFIX'' = Some p \<Longrightarrow>
     uses_prefix p (Create_simulation_job (simulation_job_request g launch envs token))"
  by (simp add: simulation_job_request_def model_s3_prefix_def)

lemma agreed_launch_simulation_jobs:
  assumes "prefix_agreed g"
  shows "prefix_agreed (fst (launch_simulation_jobs n w g))"
proof -
  let ?g1 = "g\<lparr>num_simulation_workers := n\<rparr>"
  let ?mk = "simulation_job_request ?g1 ''distributed_training.launch'' (training_envriron_vars ?g1)"
  have g1: "prefix_agreed ?g1"
    using assms by (simp add: prefix_agreed_def)
  have mk: "\<And>token. uses_prefix (s3_prefix ?g1) (Create_simulation_job (?mk token))"
    by (rule request_uses_prefix) (simp add: training_envriron_vars_def)
  obtain g2 r where loop: "create_simulation_jobs w ?mk (nat n) [] ?g1 = (g2, r)"
    by (cases "create_simulation_jobs w ?mk (nat n) [] ?g1")
  from agreed_create_simulation_jobs [where g = ?g1 and mk = ?mk and w = w and n = "nat n" and rs = "[]"]
       g1 mk loop
  have g2: "prefix_agreed g2"
    by simp
  show ?thesis
  proof (cases r)
    case (Inl e)
    with loop g2 show ?thesis
      by (simp add: launch_simulation_jobs_def Let_def)
  next
    case (Inr responses)
    have "list_all (uses_prefix p) (map (\<lambda>job_arn. Print [PStr ''Job ARN'', PStr job_arn]) xs)" for p xs
      by (induction xs) simp_all
    with loop Inr g2 show ?thesis
      by (simp add: launch_simulation_jobs_def Let_def prefix_agreed_def emit_def emits_def)
  qed
qed

lemma agreed_robomaker_links: "prefix_agreed g \<Longrightarrow> prefix_agreed (fst (cell_robomaker_links w g))"
  by (simp add: prefix_agreed_def cell_robomaker_links_def emit_def)

lemma agreed_tmp_dir: "prefix_agreed g \<Longrightarrow> prefix_agreed (fst (cell_tmp_dir w g))"
  by (simp add: prefix_agreed_def cell_tmp_dir_def emits_def Let_def)

lemma agreed_plot_metrics: "prefix_agreed g \<Longrightarrow> prefix_agreed (fst (cell_plot_metrics w g))"
  by (auto simp: prefix_agreed_def cell_plot_metrics_def plot_training_reward_def
                 emit_def emits_def Let_def
           split: sum.splits wait_result.splits)

lemma agreed_cancel_simulation_jobs:
  "prefix_agreed g \<Longrightarrow> prefix_agreed (fst (cancel_simulation_jobs w arns g))"
proof (induction arns arbitrary: g)
  case Nil
  then show ?case by simp
next
  case (Cons a arns)
  have "prefix_agreed (emit (Cancel_simulation_job a) g)"
    using Cons.prems by (simp add: prefix_agreed_def emit_def)
  with Cons.IH show ?case
    by (simp add: Let_def split: sum.splits)
qed

lemma agreed_stop_training_job: "prefix_agreed g \<Longrightarrow> prefix_agreed (fst (cell_stop_training_job w g))"
  by (auto simp: prefix_agreed_def cell_stop_training_job_def emit_def Let_def split: sum.splits)

lemma agreed_evaluation:
  assumes "prefix_agreed g"
  shows "prefix_agreed (fst (cell_evaluation w g))"
proof -
  let ?envs = "[(''MODEL_S3_BUCKET'', s3_bucket g), (''MODEL_S3_PREFIX'', s3_prefix g),
                (''ROS_AWS_REGION'', aws_region g), (''NUMBER_OF_TRIALS'', str_int 20),
                (''MARKOV_PRESET_FILE'', RLCOACH_PRESET g @ ''.py''), (''WORLD_NAME'', ''hard_track'')]"
  let ?mk = "simulation_job_request g ''evaluation.launch'' ?envs"
  have mk: "\<And>token. uses_prefix (s3_prefix g) (Create_simulation_job (?mk token))"
    by (rule request_uses_prefix) simp
  obtain g1 r where one: "create_simulation_job w ?mk g = (g1, r)"
    by (cases "create_simulation_job w ?mk g")
  from agreed_create_simulation_job [where g = g and mk = ?mk and w = w] assms mk one
  have "prefix_agreed g1" by simp
  with one show ?thesis
    by (cases r) (simp_all add: cell_evaluation_def Let_def prefix_agreed_def emits_def)
qed

lemma agreed_delete_simulation_application:
  "prefix_agreed g \<Longrightarrow> prefix_agreed (fst (cell_delete_simulation_application w g))"
  by (auto simp: prefix_agreed_def cell_delete_simulation_application_def emit_def Let_def
           split: sum.splits)

lemma later_cells_agreed:
  assumes "c \<in> set (later_cells w)" and "prefix_agreed h"
  shows "prefix_agreed (fst (c h))"
  using assms
  unfolding later_cells_def cell_launch_simulation_jobs_def cell_cancel_simulation_jobs_def
  by (auto simp: agreed_create_iam_role agreed_permission_setup agreed_configure_vpc
        agreed_s3_endpoint agreed_show_preset agreed_upload_environment agreed_train
        agreed_robomaker_client agreed_download_bundle agreed_create_simulation_application
        agreed_launch_simulation_jobs agreed_robomaker_links agreed_tmp_dir agreed_plot_metrics
        agreed_cancel_simulation_jobs agreed_stop_training_job agreed_evaluation
        agreed_delete_simulation_application)

lemma run_all_agreed: "prefix_agreed (fst (run_all w))"
proof (cases "run_cells (prelude_cells w) fresh_kernel")
  case (Pair g1 out)
  with prelude_agreed [of w] have g1: "prefix_agreed g1"
    by simp
  have "prefix_agreed (fst (run_cells (later_cells w) g1))"
    using later_cells_agreed g1 by (rule run_cells_agreed)
  with Pair g1 show ?thesis
    by (cases out) (simp_all add: run_all_def notebook_cells_def run_cells_append)
qed

subsection \<open>The run as a whole\<close>

lemma fit_requests_in_trace: "req \<in> set (fit_requests evs) \<Longrightarrow> Estimator_fit req \<in> set evs"
  by (induction evs rule: fit_requests.induct) auto

lemma sim_job_requests_in_trace:
  "req \<in> set (sim_job_requests evs) \<Longrightarrow> Create_simulation_job req \<in> set evs"
  by (induction evs rule: sim_job_requests.induct) auto

text \<open>What the run in the example world submits, and under which job name.\<close>

lemma example_run_summary:
  "(let g = fst (run_all world_ok)
    in (job_name g,
        map fit_job_name (fit_requests (trace g)),
        map (map model_s3_prefix \<circ> sj_simulationApplications) (sim_job_requests (trace g))))
   = (''rl-deepracer-sagemaker-190307-090500'',
      [''rl-deepracer-sagemaker-190307-090500''],
      [[Some ''rl-deepracer-sagemaker-190307-090500''],
       [Some ''rl-deepracer-sagemaker-190307-090500'']])"
  by code_simp

text \<open>
  C2. In every run of the notebook, each training submission carries the notebook's
  job name both as the name of the training job and as the hyperparameter
  \<^verbatim>\<open>s3_prefix\<close>, and each simulation-job request (of the training launch and of the
  evaluation) passes the same string as \<^verbatim>\<open>MODEL_S3_PREFIX\<close> to its application.
\<close>

theorem training_and_simulation_share_prefix:
  "(\<forall>req. Estimator_fit req \<in> set (trace (fst (run_all w))) \<longrightarrow>
      fit_job_name req = job_name (fst (run_all w))
      \<and> map_of (fit_hyperparameters req) ''s3_prefix'' = Some (job_name (fst (run_all w))))
   \<and> (\<forall>req app. Create_simulation_job req \<in> set (trace (fst (run_all w)))
                \<and> app \<in> set (sj_simulationApplications req) \<longrightarrow>
      map_of (lc_environmentVariables (sa_launchConfig app)) ''MODEL_S3_PREFIX'' =
        Some (job_name (fst (run_all w))))"
proof -
  let ?g = "fst (run_all w)"
  have name: "job_name ?g = s3_prefix ?g"
    and all: "\<And>ev. ev \<in> set (trace ?g) \<Longrightarrow> uses_prefix (s3_prefix ?g) ev"
    using run_all_agreed [of w] by (simp_all add: prefix_agreed_def list_all_iff)
  show ?thesis
  proof (intro conjI allI impI)
    fix req
    assume "Estimator_fit req \<in> set (trace ?g)"
    then have "uses_prefix (s3_prefix ?g) (Estimator_fit req)" by (rule all)
    then show "fit_job_name req = job_name ?g"
      and "map_of (fit_hyperparameters req) ''s3_prefix'' = Some (job_name ?g)"
      by (simp_all add: name)
  next
    fix req app
    assume "Create_simulation_job req \<in> set (trace ?g) \<and> app \<in> set (sj_simulationApplications req)"
    then have ev: "Create_simulation_job req \<in> set (trace ?g)"
      and app: "app \<in> set (sj_simulationApplications req)"
      by simp_all
    from ev have "uses_prefix (s3_prefix ?g) (Create_simulation_job req)"
      by (rule all)
    with app show "map_of (lc_environmentVariables (sa_launchConfig app)) ''MODEL_S3_PREFIX'' =
                 Some (job_name ?g)"
      by (simp add: list_all_iff model_s3_prefix_def name)
  qed
qed

theorem training_and_simulation_share_prefix_witness:
  "job_name (fst (run_all world_ok)) = ''rl-deepracer-sagemaker-190307-090500''
   \<and> (\<exists>req. Estimator_fit req \<in> set (trace (fst (run_all world_ok)))
          \<and> fit_job_name req = ''rl-deepracer-sagemaker-190307-090500''
          \<and> map_of (fit_hyperparameters req) ''s3_prefix'' =
              Some ''rl-deepracer-sagemaker-190307-090500'')
   \<and> (\<exists>req app. Create_simulation_job req \<in> set (trace (fst (run_all world_ok)))
          \<and> app \<in> set (sj_simulationApplications req)
          \<and> map_of (lc_environmentVariables (sa_launchConfig app)) ''MODEL_S3_PREFIX'' =
              Some ''rl-deepracer-sagemaker-190307-090500'')"
proof -
  let ?g = "fst (run_all world_ok)"
  let ?J = "''rl-deepracer-sagemaker-190307-090500''"
  from example_run_summary
  have name: "job_name ?g = ?J"
    and fits: "map fit_job_name (fit_requests (trace ?g)) = [?J]"
    and sims: "map (map model_s3_prefix \<circ> sj_simulationApplications) (sim_job_requests (trace ?g)) =
                 [[Some ?J], [Some ?J]]"
    by (simp_all add: Let_def)
  from fits obtain f where f: "f \<in> set (fit_requests (trace ?g))"
    by (cases "fit_requests (trace ?g)") auto
  from sims obtain r rs where r: "sim_job_requests (trace ?g) = r # rs"
    and apps: "map model_s3_prefix (sj_simulationApplications r) = [Some ?J]"
    by (cases "sim_job_requests (trace ?g)") auto
  from apps obtain a where a: "a \<in> set (sj_simulationApplications r)"
    by (cases "sj_simulationApplications r") auto
  have fin: "Estimator_fit f \<in> set (trace ?g)"
    using f by (rule fit_requests_in_trace)
  have rin: "Create_simulation_job r \<in> set (trace ?g)"
    using r by (simp add: sim_job_requests_in_trace)
  from training_and_simulation_share_prefix [of world_ok] fin rin a
  have "fit_job_name f = job_name ?g"
    and "map_of (fit_hyperparameters f) ''s3_prefix'' = Some (job_name ?g)"
    and "map_of (lc_environmentVariables (sa_launchConfig a)) ''MODEL_S3_PREFIX'' = Some (job_name ?g)"
    by blast+
  with name fin rin a show ?thesis
    by auto
qed

subsection \<open>Simulation jobs\<close>

lemma sim_job_requests_append:
  "sim_job_requests (xs @ ys) = sim_job_requests xs @ sim_job_requests ys"
  by (induction xs rule: sim_job_requests.induct) simp_all

text \<open>
  What a loop of \<open>n\<close> successful iterations leaves: two events per iteration, a clock
  read and the request with the token formatted from it.
\<close>

lemma create_simulation_jobs_trace:
  assumes "create_simulation_jobs w mk n rs g = (g1, Inr out)"
  shows "trace g1 = trace g @
           concat (map (\<lambda>k. [Gmtime (gmtime_at w (clock_reads g + k)),
                              Create_simulation_job
                                (mk (request_token (gmtime_at w (clock_reads g + k))))])
                       [0..<n])"
  using assms
proof (induction n arbitrary: g rs)
  case 0
  then show ?case by simp
next
  case (Suc n)
  let ?tm = "gmtime_at w (clock_reads g)"
  let ?req = "mk (request_token ?tm)"
  let ?g2 = "fst (create_simulation_job w mk g)"
  have g2: "trace ?g2 = trace g @ [Gmtime ?tm, Create_simulation_job ?req]"
           "clock_reads ?g2 = Suc (clock_reads g)"
    by (simp_all add: create_simulation_job_def gmtime_def emit_def Let_def)
  from Suc.prems obtain arn where
    rest: "create_simulation_jobs w mk n (rs @ [arn]) ?g2 = (g1, Inr out)"
    by (cases "create_simulation_job w mk g") (auto split: sum.splits)
  have "trace g1 = trace ?g2 @
          concat (map (\<lambda>k. [Gmtime (gmtime_at w (clock_reads ?g2 + k)),
                             Create_simulation_job
                               (mk (request_token (gmtime_at w (clock_reads ?g2 + k))))])
                      [0..<n])"
    using rest by (rule Suc.IH)
  then show ?case
    by (simp add: g2 upt_conv_Cons map_Suc_upt [symmetric] o_def del: upt_Suc)
qed

lemma launched_requests_eq:
  assumes "snd (launch_simulation_jobs n w g) = Finished"
  shows "launched_requests n w g =
           map (\<lambda>k. simulation_job_request (g\<lparr>num_simulation_workers := n\<rparr>)
                      ''distributed_training.launch''
                      (training_envriron_vars (g\<lparr>num_simulation_workers := n\<rparr>))
                      (request_token (gmtime_at w (clock_reads g + k))))
               [0..<nat n]"
proof -
  let ?g1 = "g\<lparr>num_simulation_workers := n\<rparr>"
  let ?mk = "simulation_job_request ?g1 ''distributed_training.launch'' (training_envriron_vars ?g1)"
  obtain g2 r where loop: "create_simulation_jobs w ?mk (nat n) [] ?g1 = (g2, r)"
    by (cases "create_simulation_jobs w ?mk (nat n) [] ?g1")
  with assms obtain out where r: "r = Inr out"
    by (cases r) (simp_all add: launch_simulation_jobs_def Let_def)
  have tr: "trace g2 = trace g @
           concat (map (\<lambda>k. [Gmtime (gmtime_at w (clock_reads g + k)),
                              Create_simulation_job
                                (?mk (request_token (gmtime_at w (clock_reads g + k))))])
                       [0..<nat n])"
    using create_simulation_jobs_trace [OF loop [unfolded r]] by simp
  have reqs: "sim_job_requests (concat (map (\<lambda>k. [Gmtime (a k), Create_simulation_job (b k)]) ks)) =
                map b ks" for a b and ks :: "nat list"
    by (induction ks) simp_all
  have prints: "sim_job_requests (map (\<lambda>job_arn. Print [PStr ''Job ARN'', PStr job_arn]) xs) = []" for xs
    by (induction xs) simp_all
  show ?thesis
    using loop r
    by (simp add: launched_requests_def events_of_def launch_simulation_jobs_def Let_def
          emit_def emits_def tr sim_job_requests_append reqs prints)
qed

text \<open>When every request is answered with an ARN, the loop and the cell run to their end.\<close>

lemma create_simulation_jobs_succeed:
  assumes "\<And>k req. \<exists>arn. robomaker_create_simulation_job w k req = Inr arn"
  shows "\<exists>g1 out. create_simulation_jobs w mk n rs g = (g1, Inr out)"
proof (induction n arbitrary: g rs)
  case 0
  then show ?case by simp
next
  case (Suc n)
  obtain g2 r where one: "create_simulation_job w mk g = (g2, r)"
    by (cases "create_simulation_job w mk g")
  then obtain arn where "r = Inr arn"
    using assms by (auto simp: create_simulation_job_def gmtime_def Let_def)
  with one Suc.IH [of "rs @ [arn]" g2] show ?case
    by simp
qed

lemma launch_finishes:
  assumes "\<And>k req. \<exists>arn. robomaker_create_simulation_job w k req = Inr arn"
  shows "snd (launch_simulation_jobs n w g) = Finished"
proof -
  let ?g1 = "g\<lparr>num_simulation_workers := n\<rparr>"
  from create_simulation_jobs_succeed [OF assms]
  obtain g2 out where
    "create_simulation_jobs w
       (simulation_job_request ?g1 ''distributed_training.launch'' (training_envriron_vars ?g1))
       (nat n) [] ?g1 = (g2, Inr out)"
    by blast
  then show ?thesis
    by (simp add: launch_simulation_jobs_def Let_def)
qed

lemma launch_two_finishes: "snd (launch_simulation_jobs 2 world_ok example_state) = Finished"
  by (rule launch_finishes) (simp add: world_ok_def)

text \<open>
  C8. When the launch cell runs to its end for a worker count \<open>n\<close>, it has sent \<open>n\<close>
  simulation-job requests; the \<open>i\<close>-th carries the token formatted from the \<open>i\<close>-th clock
  read of the loop; any two of them are equal once their tokens are overwritten with
  the same value; and two requests whose clock reads fall into the same second carry
  the same token.
\<close>

theorem requests_differ_in_token_only:
  assumes "snd (launch_simulation_jobs n w g) = Finished"
  shows "length (launched_requests n w g) = nat n
         \<and> (\<forall>i<nat n. sj_clientRequestToken (launched_requests n w g ! i) =
                request_token (gmtime_at w (clock_reads g + i)))
         \<and> (\<forall>i<nat n. \<forall>j<nat n. \<forall>t.
                (launched_requests n w g ! i)\<lparr>sj_clientRequestToken := t\<rparr> =
                (launched_requests n w g ! j)\<lparr>sj_clientRequestToken := t\<rparr>)
         \<and> (\<forall>i<nat n. \<forall>j<nat n.
                gmtime_at w (clock_reads g + i) = gmtime_at w (clock_reads g + j) \<longrightarrow>
                sj_clientRequestToken (launched_requests n w g ! i) =
                sj_clientRequestToken (launched_requests n w g ! j))"
  by (simp add: launched_requests_eq [OF assms] simulation_job_request_def)

theorem requests_differ_in_token_only_witness:
  "snd (launch_simulation_jobs 2 world_ok example_state) = Finished
   \<and> length (launched_requests 2 world_ok example_state) = 2
   \<and> gmtime_at world_ok (clock_reads example_state + 0) = gmtime_at world_ok (clock_reads example_state + 1)
   \<and> sj_clientRequestToken (launched_requests 2 world_ok example_state ! 0) = ''2019-03-07-09-05-00''
   \<and> sj_clientRequestToken (launched_requests 2 world_ok example_state ! 1) = ''2019-03-07-09-05-00''
   \<and> (launched_requests 2 world_ok example_state ! 0)\<lparr>sj_clientRequestToken := []\<rparr> =
     (launched_requests 2 world_ok example_state ! 1)\<lparr>sj_clientRequestToken := []\<rparr>"
proof -
  note fin = launch_two_finishes
  have same: "gmtime_at world_ok (clock_reads example_state + 0) =
              gmtime_at world_ok (clock_reads example_state + 1)"
    by (simp add: world_ok_def example_state_def fresh_kernel_def)
  have first: "request_token (gmtime_at world_ok (clock_reads example_state + 0)) =
                 ''2019-03-07-09-05-00''"
    by code_simp
  have two: "nat 2 = 2"
    by simp
  have lt: "(0::nat) < 2" "(1::nat) < 2"
    by simp_all
  note all = requests_differ_in_token_only [OF fin, unfolded two]
  note len = all [THEN conjunct1]
  note tok = all [THEN conjunct2, THEN conjunct1, rule_format, OF lt(1)]
  note eq = all [THEN conjunct2, THEN conjunct2, THEN conjunct1, rule_format, OF lt(1) lt(2), of "[]"]
  note coll = all [THEN conjunct2, THEN conjunct2, THEN conjunct2, rule_format, OF lt(1) lt(2) same]
  have tok0: "sj_clientRequestToken (launched_requests 2 world_ok example_state ! 0) =
                ''2019-03-07-09-05-00''"
    using tok first by (rule trans)
  have tok1: "sj_clientRequestToken (launched_requests 2 world_ok example_state ! 1) =
                ''2019-03-07-09-05-00''"
    using coll [symmetric] tok0 by (rule trans)
  from fin len same tok0 tok1 eq show ?thesis
    by (intro conjI)
qed

text \<open>The cells between the launch and the clean-up leave \<^verbatim>\<open>job_arns\<close> alone.\<close>

lemma job_arns_until_cleanup:
  assumes "run_cells [cell_robomaker_links w, cell_tmp_dir w, cell_plot_metrics w] g1 = (g2, out)"
  shows "job_arns g2 = job_arns g1"
proof -
  have a: "job_arns (fst (cell_robomaker_links w h)) = job_arns h" for h
    by (simp add: cell_robomaker_links_def emit_def)
  have b: "job_arns (fst (cell_tmp_dir w h)) = job_arns h" for h
    by (simp add: cell_tmp_dir_def emits_def Let_def)
  have c: "job_arns (fst (cell_plot_metrics w h)) = job_arns h" for h
    by (auto simp: cell_plot_metrics_def plot_training_reward_def emit_def emits_def Let_def
             split: sum.splits wait_result.splits)
  obtain h1 o1 where 1: "cell_robomaker_links w g1 = (h1, o1)"
    by (cases "cell_robomaker_links w g1")
  obtain h2 o2 where 2: "cell_tmp_dir w h1 = (h2, o2)"
    by (cases "cell_tmp_dir w h1")
  obtain h3 o3 where 3: "cell_plot_metrics w h2 = (h3, o3)"
    by (cases "cell_plot_metrics w h2")
  from a [of g1] b [of h1] c [of h2] 1 2 3
  have "job_arns h1 = job_arns g1" "job_arns h2 = job_arns g1" "job_arns h3 = job_arns g1"
    by simp_all
  with assms 1 2 3 show ?thesis
    by (auto split: outcome.splits)
qed

lemma cancel_one:
  "events_of (cancel_simulation_jobs w [arn]) g = [Cancel_simulation_job arn]"
  by (simp add: events_of_def emit_def Let_def split: sum.splits)

lemma launch_one:
  assumes "cell_launch_simulation_jobs w g = (g1, Finished)"
  shows "\<exists>req arn. sim_job_requests (events_of (cell_launch_simulation_jobs w) g) = [req]
           \<and> robomaker_create_simulation_job w (sim_job_calls g) req = Inr arn
           \<and> job_arns g1 = [arn]
           \<and> num_simulation_workers g1 = 1"
proof -
  let ?g0 = "g\<lparr>num_simulation_workers := 1\<rparr>"
  let ?tm = "gmtime_at w (clock_reads g)"
  let ?req = "simulation_job_request ?g0 ''distributed_training.launch''
                (training_envriron_vars ?g0) (request_token ?tm)"
  have one: "nat 1 = Suc 0"
    by simp
  have step: "create_simulation_job w
                (simulation_job_request ?g0 ''distributed_training.launch'' (training_envriron_vars ?g0)) ?g0 =
              ((emit (Create_simulation_job ?req) (emit (Gmtime ?tm) ?g0))
                  \<lparr>clock_reads := Suc (clock_reads g), sim_job_calls := Suc (sim_job_calls g)\<rparr>,
               robomaker_create_simulation_job w (sim_job_calls g) ?req)"
    by (simp add: create_simulation_job_def gmtime_def emit_def Let_def)
  show ?thesis
  proof (cases "robomaker_create_simulation_job w (sim_job_calls g) ?req")
    case (Inl e)
    with assms show ?thesis
      unfolding cell_launch_simulation_jobs_def launch_simulation_jobs_def Let_def one
      by (simp add: step)
  next
    case (Inr arn)
    with assms have "job_arns g1 = [arn]" "num_simulation_workers g1 = 1"
      unfolding cell_launch_simulation_jobs_def launch_simulation_jobs_def Let_def one
      by (auto simp: step emit_def emits_def)
    moreover have "sim_job_requests (events_of (cell_launch_simulation_jobs w) g) = [?req]"
      unfolding cell_launch_simulation_jobs_def launch_simulation_jobs_def Let_def one events_of_def
      by (simp add: step Inr emit_def emits_def)
    ultimately show ?thesis
      using Inr by blast
  qed
qed

text \<open>
  C7. With the notebook's worker count of 1, a launch cell that runs to its end has
  sent exactly one simulation-job request and holds the ARN of its response as the one
  element of \<^verbatim>\<open>job_arns\<close>; after the cells that follow, the clean-up cell sends exactly
  one cancel call, for that ARN.
\<close>

theorem one_worker_one_job:
  assumes "cell_launch_simulation_jobs w g = (g1, Finished)"
      and "run_cells [cell_robomaker_links w, cell_tmp_dir w, cell_plot_metrics w] g1 = (g2, Finished)"
  shows "num_simulation_workers g1 = 1
         \<and> (\<exists>req arn. sim_job_requests (events_of (cell_launch_simulation_jobs w) g) = [req]
               \<and> robomaker_create_simulation_job w (sim_job_calls g) req = Inr arn
               \<and> job_arns g1 = [arn]
               \<and> events_of (cell_cancel_simulation_jobs w) g2 = [Cancel_simulation_job arn])"
proof -
  from launch_one [OF assms(1)] obtain req arn where
    req: "sim_job_requests (events_of (cell_launch_simulation_jobs w) g) = [req]"
    and arn: "robomaker_create_simulation_job w (sim_job_calls g) req = Inr arn"
    and arns: "job_arns g1 = [arn]"
    and workers: "num_simulation_workers g1 = 1"
    by blast
  have "job_arns g2 = [arn]"
    using job_arns_until_cleanup [OF assms(2)] arns by simp
  then have cancel: "events_of (cell_cancel_simulation_jobs w) g2 = [Cancel_simulation_job arn]"
    using cancel_one [of w arn g2]
    by (simp add: events_of_def cell_cancel_simulation_jobs_def)
  show ?thesis
    using req arn arns cancel workers by blast
qed

theorem one_worker_one_job_witness:
  "cell_launch_simulation_jobs world_ok example_state = (example_launched, Finished)
   \<and> run_cells [cell_robomaker_links world_ok, cell_tmp_dir world_ok, cell_plot_metrics world_ok]
         example_launched = (example_before_cleanup, Finished)
   \<and> length (sim_job_requests (events_of (cell_launch_simulation_jobs world_ok) example_state)) = 1
   \<and> job_arns example_launched = [''arn:job-0'']
   \<and> events_of (cell_cancel_simulation_jobs world_ok) example_before_cleanup =
        [Cancel_simulation_job ''arn:job-0'']"
proof -
  have "snd (cell_launch_simulation_jobs world_ok example_state) = Finished"
    unfolding cell_launch_simulation_jobs_def
    by (rule launch_finishes) (simp add: world_ok_def)
  then have launch: "cell_launch_simulation_jobs world_ok example_state = (example_launched, Finished)"
    by (simp add: example_launched_def prod_eq_iff)
  have "snd (run_cells [cell_robomaker_links world_ok, cell_tmp_dir world_ok, cell_plot_metrics world_ok]
               example_launched) = Finished"
    by code_simp
  then have rest: "run_cells [cell_robomaker_links world_ok, cell_tmp_dir world_ok, cell_plot_metrics world_ok]
                     example_launched = (example_before_cleanup, Finished)"
    by (simp add: example_before_cleanup_def prod_eq_iff)
  have answer: "robomaker_create_simulation_job world_ok (sim_job_calls example_state) req =
                  Inr ''arn:job-0''" for req
    by (simp add: world_ok_def example_state_def fresh_kernel_def digit_char_def)
  from one_worker_one_job [OF launch rest] obtain req arn where
    req: "sim_job_requests (events_of (cell_launch_simulation_jobs world_ok) example_state) = [req]"
    and arn: "robomaker_create_simulation_job world_ok (sim_job_calls example_state) req = Inr arn"
    and arns: "job_arns example_launched = [arn]"
    and cancel: "events_of (cell_cancel_simulation_jobs world_ok) example_before_cleanup =
                   [Cancel_simulation_job arn]"
    by blast
  from arn answer [of req] have "arn = ''arn:job-0''"
    by simp
  with launch rest req arns cancel show ?thesis
    by simp
qed

subsection \<open>The metrics plot\<close>

lemma dropna_present:
  assumes "c \<in> set (df_columns d)"
  shows "dropna [c] d = Inr (d\<lparr>df_rows := filter (\<lambda>r. value_of d r c \<noteq> None) (df_rows d)\<rparr>)"
  using assms by (simp add: dropna_def)

lemma value_of_rows: "value_of (d\<lparr>df_rows := rs\<rparr>) r c = value_of d r c"
  by (simp add: value_of_def)

text \<open>What the cell plots once the table \<open>d\<close> is loaded.\<close>

lemma plot_training_reward_requests:
  assumes "''Episode #'' \<in> set (df_columns d)"
      and "''Training Reward'' \<in> set (df_columns d)"
  shows "plot_requests (drop (length (trace g)) (trace (fst (plot_training_reward w d g)))) =
           [\<lparr>plot_x = ''Episode #'', plot_y = ''Training Reward'',
             plot_points =
               map (\<lambda>r. (value_of d r ''Episode #'', value_of d r ''Training Reward''))
                   (filter (\<lambda>r. value_of d r ''Training Reward'' \<noteq> None) (df_rows d)),
             plot_figsize = (12, 5), plot_legend = True, plot_style = ''b-''\<rparr>]"
  using assms
  by (simp add: plot_training_reward_def dropna_present df_plot_def value_of_rows
        emit_def emits_def Let_def split: sum.splits)

lemma plot_training_reward_extends:
  "\<exists>evs. trace (fst (plot_training_reward w d g)) = trace g @ evs \<and> (\<forall>f. Read_csv f \<notin> set evs)"
  by (simp add: plot_training_reward_def emit_def emits_def Let_def split: sum.splits)

text \<open>
  C9. Once the metrics file is read into a table that has the columns \<^verbatim>\<open>Episode #\<close> and
  \<^verbatim>\<open>Training Reward\<close>, the cell issues exactly one plot request: its x axis is
  \<^verbatim>\<open>Episode #\<close>, its y axis \<^verbatim>\<open>Training Reward\<close>, and its points are those of the rows that
  have a reward, in the order of the table; the rows without a reward are left out, and
  no other row is.
\<close>

theorem missing_rewards_dropped_before_plot:
  assumes "Read_csv file \<in> set (events_of (cell_plot_metrics w) g)"
      and "pd_read_csv w file = Inr d"
      and "''Episode #'' \<in> set (df_columns d)"
      and "''Training Reward'' \<in> set (df_columns d)"
  shows "plot_requests (events_of (cell_plot_metrics w) g) =
           [\<lparr>plot_x = ''Episode #'', plot_y = ''Training Reward'',
             plot_points =
               map (\<lambda>r. (value_of d r ''Episode #'', value_of d r ''Training Reward''))
                   (filter (\<lambda>r. value_of d r ''Training Reward'' \<noteq> None) (df_rows d)),
             plot_figsize = (12, 5), plot_legend = True, plot_style = ''b-''\<rparr>]"
proof -
  let ?key = "metrics_key g"
  let ?csv = "metrics_csv_file g"
  let ?g2 = "emit (Read_csv ?csv) (emit (Wait_for_s3_object (s3_bucket g) ?key (tmp_dir g)) g)"
  have len: "length (trace ?g2) = length (trace g) + 2"
    by (simp add: emit_def)
  show ?thesis
  proof (cases "misc_wait_for_s3_object w (s3_bucket g) ?key (tmp_dir g)")
    case Object_fetched
    show ?thesis
    proof (cases "pd_read_csv w ?csv")
      case (Inl e)
      with Object_fetched assms(1) have "file = ?csv"
        by (simp add: cell_plot_metrics_def events_of_def emit_def Let_def)
      with Inl assms(2) show ?thesis
        by simp
    next
      case (Inr d')
      obtain evs where evs: "trace (fst (plot_training_reward w d' ?g2)) = trace ?g2 @ evs"
        and noread: "\<forall>f. Read_csv f \<notin> set evs"
        using plot_training_reward_extends [of w d' ?g2] by blast
      have cell: "cell_plot_metrics w g = plot_training_reward w d' ?g2"
        by (simp add: cell_plot_metrics_def Let_def Object_fetched Inr)
      have events: "events_of (cell_plot_metrics w) g =
                      [Wait_for_s3_object (s3_bucket g) ?key (tmp_dir g), Read_csv ?csv] @ evs"
        by (simp add: events_of_def cell evs) (simp add: emit_def)
      with assms(1) noread have "file = ?csv"
        by auto
      with assms(2) Inr have d: "d' = d"
        by simp
      have "plot_requests evs = plot_requests (drop (length (trace ?g2)) (trace (fst (plot_training_reward w d ?g2))))"
        using evs d by simp
      then show ?thesis
        using plot_training_reward_requests [OF assms(3,4), of ?g2 w]
        by (simp add: events)
    qed
  next
    case (Wait_raised e)
    with assms(1) show ?thesis
      by (simp add: cell_plot_metrics_def events_of_def emit_def Let_def)
  next
    case Never_returns
    with assms(1) show ?thesis
      by (simp add: cell_plot_metrics_def events_of_def emit_def Let_def)
  qed
qed

theorem missing_rewards_dropped_before_plot_witness:
  "Read_csv (metrics_csv_file example_state) \<in> set (events_of (cell_plot_metrics world_ok) example_state)
   \<and> pd_read_csv world_ok (metrics_csv_file example_state) = Inr example_metrics
   \<and> ''Episode #'' \<in> set (df_columns example_metrics)
   \<and> ''Training Reward'' \<in> set (df_columns example_metrics)
   \<and> df_rows example_metrics =
       [[Some 1, Some 0, Some (-10)], [Some 2, Some 0, None], [Some 3, Some 1, Some 25],
        [Some 4, Some 1, None], [Some 5, Some 1, Some 12]]
   \<and> map plot_points (plot_requests (events_of (cell_plot_metrics world_ok) example_state)) =
       [[(Some 1, Some (-10)), (Some 3, Some 25), (Some 5, Some 12)]]"
proof -
  let ?file = "metrics_csv_file example_state"
  have fetched: "misc_wait_for_s3_object world_ok b k t = Object_fetched" for b k t
    by (simp add: world_ok_def)
  have csv: "pd_read_csv world_ok f = Inr example_metrics" for f
    by (simp add: world_ok_def)
  have dir: "tmp_dir example_state = []" "trace example_state = []"
    by (simp_all add: example_state_def fresh_kernel_def)
  have cols: "''Episode #'' \<in> set (df_columns example_metrics)"
             "''Training Reward'' \<in> set (df_columns example_metrics)"
    by (simp_all add: example_metrics_def)
  obtain evs where
    "trace (fst (plot_training_reward world_ok example_metrics
        (emit (Read_csv ?file)
           (emit (Wait_for_s3_object (s3_bucket example_state)
                    (metrics_key example_state) (tmp_dir example_state))
              example_state)))) =
     trace (emit (Read_csv ?file)
           (emit (Wait_for_s3_object (s3_bucket example_state)
                    (metrics_key example_state) (tmp_dir example_state))
              example_state)) @ evs"
    using plot_training_reward_extends by blast
  then have read: "Read_csv ?file \<in> set (events_of (cell_plot_metrics world_ok) example_state)"
    by (simp add: cell_plot_metrics_def events_of_def Let_def fetched csv)
       (simp add: emit_def dir)
  have rows: "df_rows example_metrics =
       [[Some 1, Some 0, Some (-10)], [Some 2, Some 0, None], [Some 3, Some 1, Some 25],
        [Some 4, Some 1, None], [Some 5, Some 1, Some 12]]"
    by (simp add: example_metrics_def)
  have points: "map (\<lambda>r. (value_of example_metrics r ''Episode #'',
                           value_of example_metrics r ''Training Reward''))
                    (filter (\<lambda>r. value_of example_metrics r ''Training Reward'' \<noteq> None)
                            (df_rows example_metrics)) =
                [(Some 1, Some (-10)), (Some 3, Some 25), (Some 5, Some 12)]"
    by (simp add: example_metrics_def value_of_def)
  note plot = missing_rewards_dropped_before_plot [OF read csv cols, unfolded points]
  from plot read csv cols rows show ?thesis
    by simp
qed

end
